theory Spec2Isabelle
  imports Main "HOL-Library.AList" "HOL-Library.Sublist"
begin

text \<open>
  The session code of the selenium-webdriver transport
  (\<^verbatim>\<open>lib/transport/selenium-webdriver/index.js\<close>) and the flattening of the Appium options
  bag (\<^verbatim>\<open>extractAppiumOptions\<close>), as functions on explicit state: the three process-wide
  cache slots and the instance's fields are a record, every outside collaborator is a field
  of a record of answers, a thrown error is the left summand of the result, and the calls
  that leave the process are appended to a trace.
\<close>

section \<open>JavaScript values and capability maps\<close>

text \<open>
  The values a capability map or a settings object holds. An object is the list of its
  own enumerable properties in \<^verbatim>\<open>Object.keys\<close> order; an array is the object of its
  index properties. Numbers are the integers (no capability compared here is a fraction).
\<close>

datatype jsval =
    JUndef
  | JNull
  | JBool bool
  | JNum int
  | JStr string
  | JObj "(string \<times> jsval) list"

type_synonym caps = "(string \<times> jsval) list"

text \<open>\<^verbatim>\<open>obj[key]\<close>: a property that is not there reads as \<^verbatim>\<open>undefined\<close>.\<close>

definition getProp :: "caps \<Rightarrow> string \<Rightarrow> jsval" where
  "getProp obj key = (case map_of obj key of None \<Rightarrow> JUndef | Some v \<Rightarrow> v)"

text \<open>\<^verbatim>\<open>obj[key] = value\<close>: an existing property keeps its place, a new one goes last.\<close>

definition setProp :: "caps \<Rightarrow> string \<Rightarrow> jsval \<Rightarrow> caps" where
  "setProp obj key v = AList.update key v obj"

text \<open>\<^verbatim>\<open>delete obj[key]\<close>.\<close>

definition deleteProp :: "caps \<Rightarrow> string \<Rightarrow> caps" where
  "deleteProp obj key = AList.delete key obj"

text \<open>JavaScript truthiness, as \<^verbatim>\<open>!v\<close>, \<^verbatim>\<open>a && b\<close> and \<^verbatim>\<open>a || b\<close> read it.\<close>

fun truthy :: "jsval \<Rightarrow> bool" where
  "truthy JUndef = False"
| "truthy JNull = False"
| "truthy (JBool b) = b"
| "truthy (JNum n) = (n \<noteq> 0)"
| "truthy (JStr s) = (s \<noteq> [])"
| "truthy (JObj _) = True"

text \<open>\<^verbatim>\<open>a || b\<close>: the first operand when it is truthy, the second otherwise.\<close>

definition js_or :: "jsval \<Rightarrow> jsval \<Rightarrow> jsval" where
  "js_or a b = (if truthy a then a else b)"

text \<open>\<^verbatim>\<open>key.startsWith(p)\<close>.\<close>

fun startsWith :: "string \<Rightarrow> string \<Rightarrow> bool" where
  "startsWith s [] = True"
| "startsWith [] (p # ps) = False"
| "startsWith (c # cs) (p # ps) = (c = p \<and> startsWith cs ps)"

text \<open>\<^verbatim>\<open>s.includes(item)\<close>: the item occurs in the string as a contiguous run.\<close>

fun str_includes :: "string \<Rightarrow> string \<Rightarrow> bool" where
  "str_includes [] item = (item = [])"
| "str_includes (c # cs) item = (startsWith (c # cs) item \<or> str_includes cs item)"

text \<open>
  \<^verbatim>\<open>s.toLowerCase()\<close> on the ASCII letters; every other character is kept as it is.
\<close>

definition lowerChar :: "char \<Rightarrow> char" where
  "lowerChar c =
     (case map_of (zip ''ABCDEFGHIJKLMNOPQRSTUVWXYZ'' ''abcdefghijklmnopqrstuvwxyz'') c of
        None \<Rightarrow> c
      | Some l \<Rightarrow> l)"

definition toLowerCase :: "string \<Rightarrow> string" where
  "toLowerCase s = map lowerChar s"

text \<open>The decimal digits of a number, as a template literal writes them.\<close>

fun digitsOf :: "nat \<Rightarrow> string" where
  "digitsOf n =
     (if n < 10 then [''0123456789'' ! n]
      else digitsOf (n div 10) @ [''0123456789'' ! (n mod 10)])"

declare digitsOf.simps [simp del]

text \<open>
  The string a template literal \<^verbatim>\<open>${v}\<close> writes for a value (a plain object is written
  \<^verbatim>\<open>[object Object]\<close>).
\<close>

fun jsToString :: "jsval \<Rightarrow> string" where
  "jsToString JUndef = ''undefined''"
| "jsToString JNull = ''null''"
| "jsToString (JBool b) = (if b then ''true'' else ''false'')"
| "jsToString (JNum n) = (if n < 0 then ''-'' @ digitsOf (nat (- n)) else digitsOf (nat n))"
| "jsToString (JStr s) = s"
| "jsToString (JObj _) = ''[object Object]''"

text \<open>
  \<^verbatim>\<open>a !== b\<close>. Two values of the capability maps compared here come from two different
  maps (the desired one and the existing session's), so an object on either side is a
  different object from the other side; primitives are compared by type and value.
\<close>

fun strictNeq :: "jsval \<Rightarrow> jsval \<Rightarrow> bool" where
  "strictNeq (JObj _) _ = True"
| "strictNeq _ (JObj _) = True"
| "strictNeq a b = (a \<noteq> b)"

section \<open>Errors\<close>

text \<open>
  The classes of the error objects the transport sees: JavaScript's own \<^verbatim>\<open>Error\<close> and
  \<^verbatim>\<open>TypeError\<close>, selenium-webdriver's \<^verbatim>\<open>WebDriverError\<close> and its subclasses that the
  transport tests with \<^verbatim>\<open>instanceof\<close> (each extends \<^verbatim>\<open>WebDriverError\<close> directly), any
  other subclass of \<^verbatim>\<open>WebDriverError\<close>, and any other class.
\<close>

datatype error_class =
    PlainError
  | TypeError
  | WebDriverError
  | StaleElementReferenceError
  | ElementClickInterceptedError
  | InvalidElementStateError
  | ElementNotInteractableError
  | NoSuchWindowError
  | NoSuchSessionError
  | OtherWebDriverError string
  | OtherError string

text \<open>
  An error object: its class and the properties the transport reads or writes. A property
  that was never set reads \<^verbatim>\<open>undefined\<close>.
\<close>

record js_error =
  err_class :: error_class
  err_code :: jsval
  err_name :: string
  err_message :: string
  sessionCreate :: jsval
  detailedErr :: jsval
  extraDetail :: jsval
  showTrace :: jsval
  reportShown :: jsval
  displayed :: jsval

text \<open>The name selenium-webdriver and JavaScript give an error of a class when they build it.\<close>

fun className :: "error_class \<Rightarrow> string" where
  "className PlainError = ''Error''"
| "className TypeError = ''TypeError''"
| "className WebDriverError = ''WebDriverError''"
| "className StaleElementReferenceError = ''StaleElementReferenceError''"
| "className ElementClickInterceptedError = ''ElementClickInterceptedError''"
| "className InvalidElementStateError = ''InvalidElementStateError''"
| "className ElementNotInteractableError = ''ElementNotInteractableError''"
| "className NoSuchWindowError = ''NoSuchWindowError''"
| "className NoSuchSessionError = ''NoSuchSessionError''"
| "className (OtherWebDriverError n) = n"
| "className (OtherError n) = n"

text \<open>\<^verbatim>\<open>new C(message)\<close>: a fresh error of class \<open>C\<close> with no other property set.\<close>

definition newError :: "error_class \<Rightarrow> string \<Rightarrow> js_error" where
  "newError c msg =
     \<lparr>err_class = c, err_code = JUndef, err_name = className c, err_message = msg,
      sessionCreate = JUndef, detailedErr = JUndef, extraDetail = JUndef,
      showTrace = JUndef, reportShown = JUndef, displayed = JUndef\<rparr>"

text \<open>The \<^verbatim>\<open>TypeError\<close> of calling a string method on a value that has none.\<close>

definition notAFunction :: "string \<Rightarrow> js_error" where
  "notAFunction method = newError TypeError (method @ '' is not a function'')"

text \<open>\<^verbatim>\<open>e instanceof WebDriverError\<close>.\<close>

fun instanceofWebDriverError :: "error_class \<Rightarrow> bool" where
  "instanceofWebDriverError PlainError = False"
| "instanceofWebDriverError TypeError = False"
| "instanceofWebDriverError (OtherError _) = False"
| "instanceofWebDriverError _ = True"

section \<open>Flattening the vendor options bag (extractAppiumOptions)\<close>

text \<open>
  Modelled from the spec: \<^verbatim>\<open>isObject\<close> of the repository's utils module, which is not
  among the sources. The spec's data model calls the value under the grouping key a nested
  map (an options bag); every other value (a string, a boolean, a number, null, nothing)
  is not one.
\<close>

fun isObject :: "jsval \<Rightarrow> bool" where
  "isObject (JObj _) = True"
| "isObject _ = False"

text \<open>The own properties of a value, and \<^verbatim>\<open>Object.keys\<close> of it.\<close>

fun ownProps :: "jsval \<Rightarrow> caps" where
  "ownProps (JObj props) = props"
| "ownProps _ = []"

definition objectKeys :: "jsval \<Rightarrow> string list" where
  "objectKeys v = map fst (ownProps v)"

text \<open>
  One turn of the loop over \<^verbatim>\<open>Object.keys(appiumOptions)\<close>: the value is read from the
  bag under the key, the key gets the prefix unless it has it, and the entry is written at
  the top level of the desired capabilities.
\<close>

definition flattenKey :: "jsval \<Rightarrow> caps \<Rightarrow> string \<Rightarrow> caps" where
  "flattenKey appiumOptions desiredCapabilities key =
     (let v = getProp (ownProps appiumOptions) key;
          key' = (if \<not> startsWith key ''appium:'' then ''appium:'' @ key else key)
      in setProp desiredCapabilities key' v)"

definition extractAppiumOptions :: "caps \<Rightarrow> caps" where
  "extractAppiumOptions desiredCapabilities =
     (if isObject (getProp desiredCapabilities ''appium:options'')
      then
        (let appiumOptions = getProp desiredCapabilities ''appium:options''
         in deleteProp
              (foldl (flattenKey appiumOptions) desiredCapabilities (objectKeys appiumOptions))
              ''appium:options'')
      else desiredCapabilities)"

section \<open>Comparing capabilities (getCapabilityValue, capabilitiesMatch)\<close>

text \<open>
  The existing session's capabilities in the shapes the matcher accepts: any plain value
  (nothing, a primitive, or a key-value object, as the cache holds it), a \<^verbatim>\<open>Map\<close> (it has
  \<^verbatim>\<open>get\<close>), or selenium-webdriver's \<^verbatim>\<open>Capabilities\<close> (it has \<^verbatim>\<open>get\<close> and
  \<^verbatim>\<open>getBrowserName\<close>, which is \<^verbatim>\<open>get('browserName')\<close>).
\<close>

datatype existing_caps =
    PlainCaps jsval
  | MapCaps caps
  | CapabilitiesObj caps

text \<open>JavaScript truthiness of the capabilities value itself (\<^verbatim>\<open>!existingCaps\<close>).\<close>

fun capsTruthy :: "existing_caps \<Rightarrow> bool" where
  "capsTruthy (PlainCaps v) = truthy v"
| "capsTruthy (MapCaps _) = True"
| "capsTruthy (CapabilitiesObj _) = True"

fun getCapabilityValue :: "existing_caps \<Rightarrow> string \<Rightarrow> jsval" where
  "getCapabilityValue (PlainCaps v) key =
     (if \<not> truthy v then JUndef else getProp (ownProps v) key)"
| "getCapabilityValue (MapCaps m) key = getProp m key"
| "getCapabilityValue (CapabilitiesObj m) key = getProp m key"

text \<open>
  The classification helpers of the repository's \<^verbatim>\<open>utils/mobile.js\<close>, which is not among
  the sources: the matcher takes them as they are given.
\<close>

record mobile_utils =
  isMobile :: "caps \<Rightarrow> bool"
  isIos :: "caps \<Rightarrow> bool"
  isAndroid :: "caps \<Rightarrow> bool"

text \<open>
  Modelled from the spec: the classification of \<^verbatim>\<open>utils/mobile.js\<close>, which is not among
  the sources. The platform is inferred from the desired capabilities on each call, the
  platform name read case-insensitively: iOS, Android, and mobile when it is either.
\<close>

definition platformIs :: "string \<Rightarrow> caps \<Rightarrow> bool" where
  "platformIs p desiredCaps =
     (case getProp desiredCaps ''platformName'' of
        JStr s \<Rightarrow> toLowerCase s = p
      | _ \<Rightarrow> False)"

definition mobileUtils :: mobile_utils where
  "mobileUtils =
     \<lparr>isMobile = (\<lambda>c. platformIs ''ios'' c \<or> platformIs ''android'' c),
      isIos = platformIs ''ios'',
      isAndroid = platformIs ''android''\<rparr>"

text \<open>\<^verbatim>\<open>v?.toLowerCase()\<close>: nothing for null and undefined, a TypeError for a value that
  has no such method.\<close>

fun optToLowerCase :: "jsval \<Rightarrow> js_error + jsval" where
  "optToLowerCase JUndef = Inr JUndef"
| "optToLowerCase JNull = Inr JUndef"
| "optToLowerCase (JStr s) = Inr (JStr (toLowerCase s))"
| "optToLowerCase _ = Inl (notAFunction ''toLowerCase'')"

text \<open>\<^verbatim>\<open>d && e && d !== e\<close>: the field is there on both sides and differs.\<close>

definition bothDiffer :: "jsval \<Rightarrow> jsval \<Rightarrow> bool" where
  "bothDiffer d e = (truthy d \<and> truthy e \<and> strictNeq d e)"

text \<open>The platform-name check of the mobile branch: \<open>Inr True\<close> when the names differ.\<close>

definition platformDiffers :: "caps \<Rightarrow> existing_caps \<Rightarrow> js_error + bool" where
  "platformDiffers desiredCaps existingCaps =
     (case optToLowerCase (getProp desiredCaps ''platformName'') of
        Inl e \<Rightarrow> Inl e
      | Inr desiredPlatform \<Rightarrow>
          (case optToLowerCase (getCapabilityValue existingCaps ''platformName'') of
             Inl e \<Rightarrow> Inl e
           | Inr p1 \<Rightarrow>
               (if truthy p1 then Inr (bothDiffer desiredPlatform p1)
                else (case optToLowerCase (getCapabilityValue existingCaps ''platform'') of
                        Inl e \<Rightarrow> Inl e
                      | Inr existingPlatform \<Rightarrow>
                          Inr (bothDiffer desiredPlatform existingPlatform)))))"

text \<open>An identifying field read under two alternate keys on each side.\<close>

definition fieldDiffers :: "string \<Rightarrow> string \<Rightarrow> caps \<Rightarrow> existing_caps \<Rightarrow> bool" where
  "fieldDiffers key1 key2 desiredCaps existingCaps =
     bothDiffer
       (js_or (getProp desiredCaps key1) (getProp desiredCaps key2))
       (js_or (getCapabilityValue existingCaps key1) (getCapabilityValue existingCaps key2))"

definition iosDiffers :: "caps \<Rightarrow> existing_caps \<Rightarrow> bool" where
  "iosDiffers desiredCaps existingCaps =
     (fieldDiffers ''appium:udid'' ''safari:deviceUDID'' desiredCaps existingCaps
      \<or> fieldDiffers ''appium:bundleId'' ''bundleId'' desiredCaps existingCaps)"

definition androidDiffers :: "caps \<Rightarrow> existing_caps \<Rightarrow> bool" where
  "androidDiffers desiredCaps existingCaps =
     (fieldDiffers ''appium:udid'' ''deviceId'' desiredCaps existingCaps
      \<or> fieldDiffers ''appium:appPackage'' ''appPackage'' desiredCaps existingCaps)"

text \<open>\<^verbatim>\<open>s.toLowerCase()\<close> on a truthy value: a TypeError unless it is a string.\<close>

fun callToLowerCase :: "jsval \<Rightarrow> js_error + string" where
  "callToLowerCase (JStr s) = Inr (toLowerCase s)"
| "callToLowerCase _ = Inl (notAFunction ''toLowerCase'')"

text \<open>The browser-name check, made for every platform: \<open>Inr True\<close> when the names differ.\<close>

definition browserDiffers :: "caps \<Rightarrow> existing_caps \<Rightarrow> js_error + bool" where
  "browserDiffers desiredCaps existingCaps =
     (let desiredBrowser = getProp desiredCaps ''browserName'';
          existingBrowser = getCapabilityValue existingCaps ''browserName''
      in if truthy desiredBrowser \<and> truthy existingBrowser
         then (case callToLowerCase desiredBrowser of
                 Inl e \<Rightarrow> Inl e
               | Inr d \<Rightarrow>
                   (case callToLowerCase existingBrowser of
                      Inl e \<Rightarrow> Inl e
                    | Inr x \<Rightarrow> Inr (d \<noteq> x)))
         else Inr False)"

definition capabilitiesMatch :: "mobile_utils \<Rightarrow> caps \<Rightarrow> existing_caps \<Rightarrow> js_error + bool" where
  "capabilitiesMatch h desiredCaps existingCaps =
     (if \<not> capsTruthy existingCaps then Inr False
      else
        (case (if isMobile h desiredCaps
               then (case platformDiffers desiredCaps existingCaps of
                       Inl e \<Rightarrow> Inl e
                     | Inr differs \<Rightarrow>
                         Inr (differs
                              \<or> (isIos h desiredCaps \<and> iosDiffers desiredCaps existingCaps)
                              \<or> (isAndroid h desiredCaps
                                  \<and> androidDiffers desiredCaps existingCaps)))
               else Inr False) of
           Inl e \<Rightarrow> Inl e
         | Inr mobileDiffers \<Rightarrow>
             (if mobileDiffers then Inr False
              else (case browserDiffers desiredCaps existingCaps of
                      Inl e \<Rightarrow> Inl e
                    | Inr differs \<Rightarrow> Inr (\<not> differs)))))"

section \<open>The session cache and the collaborators\<close>

text \<open>Opaque handles: a remote driver and a local driver-service process.\<close>

datatype driver = Driver nat

datatype service = Service nat

text \<open>
  What a promise does, seen from the call: it resolves or rejects so many milliseconds
  later, or it never settles.
\<close>

datatype 'a promise =
    Resolves nat 'a
  | Rejects nat js_error
  | Pending

text \<open>A remote session as the probe returns it: what its two getters give.\<close>

record session =
  getId :: "js_error + jsval"
  getCapabilities :: "js_error + existing_caps"

text \<open>The cached snapshot, what a session exports, and what createSession returns.\<close>

record session_info =
  sessionId :: jsval
  capabilities :: existing_caps

record session_exports = session_info +
  sessionInfo :: jsval
  elementKey :: jsval

record session_result = session_info +
  result_host :: jsval
  result_port :: jsval

text \<open>The calls that leave the process, in the order they are made.\<close>

datatype io_event =
    GetSession driver
  | GetId
  | GetCapabilities
  | CreateDriver
  | Exported "driver option"
  | ServiceInit service
  | ServiceStop service

text \<open>
  The three process-wide slots (\<^verbatim>\<open>Transport.driver\<close>, \<^verbatim>\<open>Transport.driverService\<close>,
  \<^verbatim>\<open>Transport.cachedSessionInfo\<close>), the fields of the transport instance that the session
  code writes, and the trace of outside calls.
\<close>

record transport =
  driver :: "driver option"
  driverService :: "service option"
  cachedSessionInfo :: "session_info option"
  this_driver :: "driver option"
  this_driverService :: "service option"
  this_stopped :: bool
  this_elementKey :: jsval
  trace :: "io_event list"

text \<open>
  The state when the module is loaded: the three slots are \<^verbatim>\<open>null\<close>, the instance has
  no driver and no service yet, and no outside call has been made.
\<close>

definition emptyCache :: transport where
  "emptyCache =
     \<lparr>driver = None, driverService = None, cachedSessionInfo = None,
      this_driver = None, this_driverService = None, this_stopped = False,
      this_elementKey = JUndef, trace = []\<rparr>"

text \<open>
  The settings the session code reads: the desired capabilities, the \<^verbatim>\<open>webdriver\<close>
  section (host, port, start_process and whatever other knobs it holds), and the two output
  switches.
\<close>

record settings =
  desiredCapabilities :: caps
  webdriver :: caps
  output_enabled :: bool
  testWorkersEnabled :: bool

text \<open>
  Everything outside \<^verbatim>\<open>index.js\<close> that one call of the session code meets: the settings,
  the helpers of \<^verbatim>\<open>utils/mobile.js\<close>, the name of the service (that of the transport's
  \<^verbatim>\<open>ServiceBuilder\<close>, which every concrete transport defines), what building the session
  options gives, the service a new \<^verbatim>\<open>ServiceBuilder\<close> makes and how its start and stop end,
  the remote end's answers, the session export, the two dedicated error constructors and
  the table of known iOS error names (both outside the sources, taken as given), and the
  configured list of transient messages (\<^verbatim>\<open>getRetryableErrorMessages\<close> of the base
  transport).
\<close>

record world =
  settings :: settings
  mobile :: mobile_utils
  serviceName :: string
  createSessionOptions :: "js_error + jsval"
  newService :: service
  serviceInit :: "service \<Rightarrow> js_error option"
  serviceStopped :: "service \<Rightarrow> bool"
  serviceStop :: "service \<Rightarrow> js_error option"
  getOutputFilePath :: "service \<Rightarrow> jsval"
  getSettingsFormatted :: "service \<Rightarrow> string"
  getSession :: "driver \<Rightarrow> session promise"
  serializeCapabilities :: "existing_caps \<Rightarrow> js_error + existing_caps"
  build :: "jsval \<Rightarrow> js_error + driver"
  exported :: "driver option \<Rightarrow> js_error + session_exports"
  isSafari :: bool
  isIOS :: bool
  IosSessionErrors :: "string \<Rightarrow> jsval"
  AndroidConnectionError :: "js_error \<Rightarrow> js_error"
  IosSessionNotCreatedError :: "js_error \<Rightarrow> caps \<Rightarrow> js_error"
  getRetryableErrorMessages :: "string list"

section \<open>Ending a session (closeDriver, sessionFinished)\<close>

text \<open>
  \<^verbatim>\<open>closeDriver\<close> stops the instance's driver service, if it has one, and clears the
  instance's fields; a failing stop is rethrown. \<^verbatim>\<open>sessionFinished\<close> emits its event (the
  listeners are outside this code and are taken not to write the cache), empties the
  snapshot slot and closes the driver service.
\<close>

definition closeDriver :: "world \<Rightarrow> transport \<Rightarrow> (js_error + unit) \<times> transport" where
  "closeDriver w s =
     (case this_driverService s of
        None \<Rightarrow> (Inr (), s)
      | Some svc \<Rightarrow>
          (let s1 = s\<lparr>trace := trace s @ [ServiceStop svc]\<rparr>
           in case serviceStop w svc of
                Some err \<Rightarrow> (Inl (err\<lparr>displayed := JBool True\<rparr>), s1)
              | None \<Rightarrow> (Inr (), s1\<lparr>this_driverService := None, this_stopped := True\<rparr>)))"

definition sessionFinished :: "world \<Rightarrow> transport \<Rightarrow> (js_error + unit) \<times> transport" where
  "sessionFinished w s = closeDriver w (s\<lparr>cachedSessionInfo := None\<rparr>)"

section \<open>Deciding on reuse (shouldReuseDriver)\<close>

text \<open>
  \<^verbatim>\<open>Promise.race([sessionPromise, timeoutPromise])\<close>: the probe wins when it settles
  before the timer fires; otherwise the timer rejects with its own error. A probe that
  settles at the very millisecond of the deadline is taken to lose (due timers run before
  the callbacks of finished requests).
\<close>

definition raceTimeout :: "'a promise \<Rightarrow> nat \<Rightarrow> js_error + 'a" where
  "raceTimeout p timeout =
     (case p of
        Resolves t v \<Rightarrow>
          (if t < timeout then Inr v else Inl (newError PlainError ''Session check timeout''))
      | Rejects t e \<Rightarrow>
          (if t < timeout then Inl e else Inl (newError PlainError ''Session check timeout''))
      | Pending \<Rightarrow> Inl (newError PlainError ''Session check timeout''))"

text \<open>The timer's allowance: \<^verbatim>\<open>isMobilePlatform ? 2000 : 1000\<close>.\<close>

definition probeTimeout :: "mobile_utils \<Rightarrow> caps \<Rightarrow> nat" where
  "probeTimeout h desiredCaps = (if isMobile h desiredCaps then 2000 else 1000)"

text \<open>
  The fill of an empty cache after a successful probe; a failure of either getter or of
  the serialisation is swallowed.
\<close>

definition fillCache :: "world \<Rightarrow> transport \<Rightarrow> session \<Rightarrow> transport" where
  "fillCache w s sess =
     (case cachedSessionInfo s of
        Some _ \<Rightarrow> s
      | None \<Rightarrow>
          (let s1 = s\<lparr>trace := trace s @ [GetId]\<rparr>
           in case getId sess of
                Inl _ \<Rightarrow> s1
              | Inr sid \<Rightarrow>
                  (let s2 = s1\<lparr>trace := trace s1 @ [GetCapabilities]\<rparr>
                   in case getCapabilities sess of
                        Inl _ \<Rightarrow> s2
                      | Inr sessionCapabilities \<Rightarrow>
                          (case serializeCapabilities w sessionCapabilities of
                             Inl _ \<Rightarrow> s2
                           | Inr serializedCaps \<Rightarrow>
                               s2\<lparr>cachedSessionInfo :=
                                    Some \<lparr>sessionId = sid,
                                          capabilities = serializedCaps\<rparr>\<rparr>))))"

text \<open>The \<^verbatim>\<open>try\<close> block: the probe against the timer, then the fill.\<close>

definition probeDriver :: "world \<Rightarrow> transport \<Rightarrow> driver \<Rightarrow> (js_error + bool) \<times> transport" where
  "probeDriver w s d =
     (let timeout = probeTimeout (mobile w) (desiredCapabilities (settings w));
          s1 = s\<lparr>trace := trace s @ [GetSession d]\<rparr>
      in case raceTimeout (getSession w d) timeout of
           Inl err \<Rightarrow> (Inr False, s1\<lparr>driver := None, cachedSessionInfo := None\<rparr>)
         | Inr sess \<Rightarrow> (Inr True, fillCache w s1 sess))"

definition shouldReuseDriver :: "world \<Rightarrow> transport \<Rightarrow> bool \<Rightarrow> (js_error + bool) \<times> transport" where
  "shouldReuseDriver w s reuseBrowser =
     (if \<not> reuseBrowser then (Inr False, s)
      else
        (case driver s of
           None \<Rightarrow> (Inr False, s)
         | Some d \<Rightarrow>
             (case cachedSessionInfo s of
                None \<Rightarrow> probeDriver w s d
              | Some info \<Rightarrow>
                  (if capsTruthy (capabilities info)
                   then (case capabilitiesMatch (mobile w) (desiredCapabilities (settings w))
                                (capabilities info) of
                           Inl e \<Rightarrow> (Inl e, s)
                         | Inr matches \<Rightarrow>
                             (if \<not> matches
                              then (Inr False, s\<lparr>driver := None, cachedSessionInfo := None\<rparr>)
                              else probeDriver w s d))
                   else probeDriver w s d))))"

section \<open>Classifying a connect error (handleConnectError)\<close>

text \<open>The double quote and the line feed of the message templates.\<close>

definition dq :: string where
  "dq = [CHR 0x22]"

definition nl :: string where
  "nl = [CHR 0x0A]"

definition errMsg :: "world \<Rightarrow> string" where
  "errMsg w = ''An error occurred while creating a new '' @ serviceName w @ '' session:''"

text \<open>The hint that the connection-refused message carries.\<close>

definition startProcessHint :: string where
  "startProcessHint =
     ''If the Webdriver/Selenium service is managed by Nightwatch, check if ''
       @ dq @ ''start_process'' @ dq @ '' is set to '' @ dq @ ''true'' @ dq @ ''.''"

text \<open>The \<^verbatim>\<open>switch (err.code)\<close>: the message is rewritten in either branch.\<close>

definition rewriteMessage :: "world \<Rightarrow> js_error \<Rightarrow> jsval \<Rightarrow> jsval \<Rightarrow> js_error" where
  "rewriteMessage w err host port =
     (if err_code err = JStr ''ECONNREFUSED''
      then err\<lparr>sessionCreate := JBool True,
               err_message :=
                 errMsg w @ '' Connection refused to '' @ jsToString host @ '':''
                   @ jsToString port @ ''. '' @ startProcessHint\<rparr>
      else err\<lparr>err_message :=
                 errMsg w @ '' ['' @ err_name err @ ''] '' @ err_message err\<rparr>)"

text \<open>The diagnostic detail attached when a driver service is active.\<close>

definition attachDetail :: "world \<Rightarrow> service \<Rightarrow> js_error \<Rightarrow> js_error" where
  "attachDetail w svc err =
     (let logPath = getOutputFilePath w svc
      in err\<lparr>detailedErr :=
                 JStr ('' Verify if '' @ serviceName w @ '' is configured correctly; using:''
                       @ nl @ ''  '' @ getSettingsFormatted w svc @ nl),
               extraDetail :=
                 JStr (if truthy logPath
                       then nl @ ''  More info might be available in the log file: ''
                            @ jsToString logPath
                       else nl @ ''  Set webdriver.log_path in your Nightwatch config to ''
                            @ ''retrieve more logs from '' @ serviceName w @ ''.'')\<rparr>)"

text \<open>The message pattern of the Android branch.\<close>

definition adbFailure :: "js_error \<Rightarrow> bool" where
  "adbFailure err =
     (str_includes (err_message err) ''Failed to run adb command''
      \<or> str_includes (err_message err) ''no devices online'')"

text \<open>The condition of the iOS branch.\<close>

definition iosSessionError :: "world \<Rightarrow> js_error \<Rightarrow> bool" where
  "iosSessionError w err = (truthy (IosSessionErrors w (err_name err)) \<and> isSafari w \<and> isIOS w)"

definition handleConnectError ::
    "world \<Rightarrow> transport \<Rightarrow> js_error \<Rightarrow> jsval \<Rightarrow> jsval \<Rightarrow> js_error" where
  "handleConnectError w s err host port =
     (let err1 = rewriteMessage w err host port
      in case (if \<not> truthy (detailedErr err1) then this_driverService s else None) of
           Some svc \<Rightarrow>
             (let err2 = attachDetail w svc err1
              in if adbFailure err2 then AndroidConnectionError w err2
                 else if iosSessionError w err2
                 then IosSessionNotCreatedError w err2 (desiredCapabilities (settings w))
                 else err2\<lparr>showTrace := JBool False, reportShown := JBool True\<rparr>)
         | None \<Rightarrow> err1\<lparr>showTrace := JBool False, reportShown := JBool True\<rparr>)"

text \<open>
  Modelled from the spec: the constructors of the two dedicated error types of
  \<^verbatim>\<open>utils/mobile.js\<close>, which is not among the sources. The spec calls them a dedicated
  Android-connectivity error and a dedicated iOS-session error carrying diagnostic payload:
  a new error object of its own kind that carries the wrapped error's message and detail,
  with no other property set.
\<close>

definition dedicatedError :: "string \<Rightarrow> js_error \<Rightarrow> js_error" where
  "dedicatedError kind err =
     (newError (OtherError kind) (err_message err))
       \<lparr>detailedErr := detailedErr err, extraDetail := extraDetail err\<rparr>"

section \<open>Retryable element errors (getErrorResponse, isRetryableElementError)\<close>

text \<open>
  A result wrapper: an error itself, or an object whose \<^verbatim>\<open>error\<close> property holds an
  error or something that is no error at all.
\<close>

datatype result =
    ErrorResult js_error
  | ObjectResult "js_error option"

fun getErrorResponse :: "result \<Rightarrow> js_error option" where
  "getErrorResponse (ErrorResult e) = Some e"
| "getErrorResponse (ObjectResult r) = r"

definition staleElementReference :: "js_error option \<Rightarrow> bool" where
  "staleElementReference r =
     (case r of None \<Rightarrow> False | Some e \<Rightarrow> err_class e = StaleElementReferenceError)"

definition elementClickInterceptedError :: "js_error option \<Rightarrow> bool" where
  "elementClickInterceptedError r =
     (case r of None \<Rightarrow> False | Some e \<Rightarrow> err_class e = ElementClickInterceptedError)"

definition invalidElementStateError :: "js_error option \<Rightarrow> bool" where
  "invalidElementStateError r =
     (case r of None \<Rightarrow> False | Some e \<Rightarrow> err_class e = InvalidElementStateError)"

definition elementNotInteractableError :: "js_error option \<Rightarrow> bool" where
  "elementNotInteractableError r =
     (case r of None \<Rightarrow> False | Some e \<Rightarrow> err_class e = ElementNotInteractableError)"

text \<open>The first test: a \<^verbatim>\<open>WebDriverError\<close> whose name is the generic one.\<close>

definition genericWebDriverError :: "js_error option \<Rightarrow> bool" where
  "genericWebDriverError r =
     (case r of
        None \<Rightarrow> False
      | Some e \<Rightarrow> instanceofWebDriverError (err_class e) \<and> err_name e = ''WebDriverError'')"

text \<open>\<^verbatim>\<open>errorResponse.message\<close>, read only after the first test has passed.\<close>

definition messageOf :: "js_error option \<Rightarrow> string" where
  "messageOf r = (case r of None \<Rightarrow> [] | Some e \<Rightarrow> err_message e)"

definition isRetryableElementError :: "world \<Rightarrow> result \<Rightarrow> bool" where
  "isRetryableElementError w res =
     (let errorResponse = getErrorResponse res
      in if genericWebDriverError errorResponse
         then list_ex (\<lambda>item. str_includes (messageOf errorResponse) item)
                (getRetryableErrorMessages w)
         else (staleElementReference errorResponse
               \<or> elementClickInterceptedError errorResponse
               \<or> invalidElementStateError errorResponse
               \<or> elementNotInteractableError errorResponse))"

section \<open>Negotiating a session (createDriverService, getDriver, createSession)\<close>

text \<open>
  The spinner, the console lines and the timing record are display only and are left out.
  \<^verbatim>\<open>createDriverService\<close> stores the new service in its slot before it starts it, so a
  failed start leaves it there.
\<close>

definition shouldReuseDriverService :: "world \<Rightarrow> transport \<Rightarrow> bool \<Rightarrow> bool" where
  "shouldReuseDriverService w s reuseBrowser =
     (case driverService s of
        None \<Rightarrow> False
      | Some svc \<Rightarrow> \<not> serviceStopped w svc \<and> reuseBrowser)"

definition createDriverService ::
    "world \<Rightarrow> transport \<Rightarrow> bool \<Rightarrow> (js_error + unit) \<times> transport" where
  "createDriverService w s reuseBrowser =
     (if \<not> shouldReuseDriverService w s reuseBrowser
      then
        (let svc = newService w;
             s1 = s\<lparr>driverService := Some svc, trace := trace s @ [ServiceInit svc]\<rparr>
         in case serviceInit w svc of
              Some err \<Rightarrow> (Inl err, s1)
            | None \<Rightarrow> (Inr (), s1\<lparr>this_driverService := driverService s1\<rparr>))
      else (Inr (), s\<lparr>this_driverService := driverService s\<rparr>))"

text \<open>\<^verbatim>\<open>createDriver\<close>: the builder's \<^verbatim>\<open>build()\<close>, the remote-session creation call.\<close>

definition createDriver :: "world \<Rightarrow> transport \<Rightarrow> jsval \<Rightarrow> (js_error + driver) \<times> transport" where
  "createDriver w s options = (build w options, s\<lparr>trace := trace s @ [CreateDriver]\<rparr>)"

definition getDriver ::
    "world \<Rightarrow> transport \<Rightarrow> jsval \<Rightarrow> bool \<Rightarrow> (js_error + driver option) \<times> transport" where
  "getDriver w s options reuseBrowser =
     (case shouldReuseDriver w s reuseBrowser of
        (Inl e, s1) \<Rightarrow> (Inl e, s1)
      | (Inr v, s1) \<Rightarrow>
          (if v then (Inr (driver s1), s1)
           else (case createDriver w s1 options of
                   (Inl e, s2) \<Rightarrow> (Inl e, s2)
                 | (Inr d, s2) \<Rightarrow> (Inr (Some d), s2\<lparr>driver := Some d\<rparr>))))"

text \<open>
  \<^verbatim>\<open>showConnectInfo\<close> writes to the console only; with output enabled it calls
  \<^verbatim>\<open>appId.split\<close> and \<^verbatim>\<open>platform.toUpperCase\<close> on the session info, a TypeError unless
  both are strings.
\<close>

definition showConnectInfo :: "world \<Rightarrow> jsval \<Rightarrow> js_error option" where
  "showConnectInfo w info =
     (if output_enabled (settings w)
      then (case getProp (ownProps info) ''appId'' of
              JStr _ \<Rightarrow>
                (case getProp (ownProps info) ''platform'' of
                   JStr _ \<Rightarrow> None
                 | _ \<Rightarrow> Some (notAFunction ''toUpperCase''))
            | _ \<Rightarrow> Some (notAFunction ''split''))
      else None)"

text \<open>The body of the \<^verbatim>\<open>try\<close> block of createSession.\<close>

definition connectSession ::
    "world \<Rightarrow> transport \<Rightarrow> jsval \<Rightarrow> bool \<Rightarrow> jsval \<Rightarrow> jsval
      \<Rightarrow> (js_error + session_result) \<times> transport" where
  "connectSession w s options reuseBrowser host port =
     (case shouldReuseDriver w s reuseBrowser of
        (Inl e, s1) \<Rightarrow> (Inl e, s1)
      | (Inr wasReused, s1) \<Rightarrow>
          (case (if wasReused then (Inr (driver s1), s1)
                 else getDriver w s1 options reuseBrowser) of
             (Inl e, s2) \<Rightarrow> (Inl e, s2)
           | (Inr d, s2) \<Rightarrow>
               (let s3 = s2\<lparr>this_driver := d, trace := trace s2 @ [Exported d]\<rparr>
                in case exported w d of
                     Inl e \<Rightarrow> (Inl e, s3)
                   | Inr sessionExports \<Rightarrow>
                       (let s4 =
                              (if truthy (sessionId sessionExports)
                                  \<and> capsTruthy (capabilities sessionExports)
                               then s3\<lparr>cachedSessionInfo :=
                                         Some \<lparr>sessionId = sessionId sessionExports,
                                               capabilities = capabilities sessionExports\<rparr>\<rparr>
                               else s3);
                            s5 = s4\<lparr>this_elementKey := elementKey sessionExports\<rparr>
                        in case showConnectInfo w (sessionInfo sessionExports) of
                             Some e \<Rightarrow> (Inl e, s5)
                           | None \<Rightarrow>
                               (Inr \<lparr>sessionId = sessionId sessionExports,
                                     capabilities = capabilities sessionExports,
                                     result_host = host, result_port = port\<rparr>, s5)))))"

text \<open>
  \<^verbatim>\<open>createSession\<close>: the options are built and the driver service is started before the
  \<^verbatim>\<open>try\<close> block, so their errors are thrown as they are; an error of the block goes
  through \<^verbatim>\<open>handleConnectError\<close> first.
\<close>

definition createSession ::
    "world \<Rightarrow> transport \<Rightarrow> bool \<Rightarrow> (js_error + session_result) \<times> transport" where
  "createSession w s reuseBrowser =
     (let host = getProp (webdriver (settings w)) ''host'';
          port = getProp (webdriver (settings w)) ''port'';
          start_process = getProp (webdriver (settings w)) ''start_process''
      in case createSessionOptions w of
           Inl e \<Rightarrow> (Inl e, s)
         | Inr options \<Rightarrow>
             (case (if truthy start_process then createDriverService w s reuseBrowser
                    else (Inr (), s)) of
                (Inl e, s1) \<Rightarrow> (Inl e, s1)
              | (Inr _, s1) \<Rightarrow>
                  (case connectSession w s1 options reuseBrowser host port of
                     (Inl err, s2) \<Rightarrow> (Inl (handleConnectError w s2 err host port), s2)
                   | (Inr r, s2) \<Rightarrow> (Inr r, s2))))"

section \<open>The matcher's fields, as the spec names them\<close>

text \<open>
  A platform or browser name is a string where it is given at all (it may be missing or
  null): on any other value \<^verbatim>\<open>toLowerCase\<close> is no function and the matcher throws.
\<close>

definition nameOk :: "jsval \<Rightarrow> bool" where
  "nameOk v = (case v of JUndef \<Rightarrow> True | JNull \<Rightarrow> True | JStr _ \<Rightarrow> True | _ \<Rightarrow> False)"

definition namesAreStrings :: "caps \<Rightarrow> existing_caps \<Rightarrow> bool" where
  "namesAreStrings d e =
     (nameOk (getProp d ''platformName'')
      \<and> nameOk (getCapabilityValue e ''platformName'')
      \<and> nameOk (getCapabilityValue e ''platform'')
      \<and> nameOk (getProp d ''browserName'')
      \<and> nameOk (getCapabilityValue e ''browserName''))"

text \<open>A name as it is compared: a string in lower case.\<close>

fun lowerName :: "jsval \<Rightarrow> jsval" where
  "lowerName (JStr s) = JStr (toLowerCase s)"
| "lowerName v = v"

text \<open>
  The platform name is there on both sides and differs, case aside: the desired one under
  \<^verbatim>\<open>platformName\<close>, the existing one under \<^verbatim>\<open>platformName\<close> or else \<^verbatim>\<open>platform\<close>.
\<close>

definition platformNameDiffers :: "caps \<Rightarrow> existing_caps \<Rightarrow> bool" where
  "platformNameDiffers d e =
     bothDiffer (lowerName (getProp d ''platformName''))
       (js_or (lowerName (getCapabilityValue e ''platformName''))
              (lowerName (getCapabilityValue e ''platform'')))"

text \<open>The browser name is there on both sides and differs, case aside.\<close>

definition browserNameDiffers :: "caps \<Rightarrow> existing_caps \<Rightarrow> bool" where
  "browserNameDiffers d e =
     bothDiffer (lowerName (getProp d ''browserName''))
       (lowerName (getCapabilityValue e ''browserName''))"

section \<open>Example inputs\<close>

text \<open>A capability map with an options bag, and the same map flattened.\<close>

definition nestedCaps :: caps where
  "nestedCaps =
     [(''platformName'', JStr ''Android''),
      (''appium:options'',
         JObj [(''udid'', JStr ''emulator-5554''), (''appium:appPackage'', JStr ''org.wiki'')])]"

definition flatCaps :: caps where
  "flatCaps =
     [(''platformName'', JStr ''Android''),
      (''appium:udid'', JStr ''emulator-5554''),
      (''appium:appPackage'', JStr ''org.wiki'')]"

text \<open>A desktop target on Linux, and a cached desktop session on Windows.\<close>

definition linuxChrome :: caps where
  "linuxChrome = [(''platformName'', JStr ''linux''), (''browserName'', JStr ''chrome'')]"

definition windowsChrome :: existing_caps where
  "windowsChrome =
     PlainCaps (JObj [(''platformName'', JStr ''windows''), (''browserName'', JStr ''Chrome'')])"

text \<open>An Android target, and cached Android sessions on the same and on another device.\<close>

definition androidCaps :: caps where
  "androidCaps =
     [(''platformName'', JStr ''Android''),
      (''appium:udid'', JStr ''emulator-5554''),
      (''appium:bundleId'', JStr ''org.wiki.ios'')]"

definition sameDevice :: existing_caps where
  "sameDevice =
     CapabilitiesObj
       [(''platformName'', JStr ''ANDROID''),
        (''deviceId'', JStr ''emulator-5554''),
        (''appium:bundleId'', JStr ''org.other.ios'')]"

definition otherDevice :: existing_caps where
  "otherDevice =
     PlainCaps (JObj [(''platform'', JStr ''android''), (''appium:udid'', JStr ''emulator-5556'')])"

text \<open>A cached desktop session on Linux, its browser name in another case.\<close>

definition linuxSession :: existing_caps where
  "linuxSession =
     MapCaps [(''platformName'', JStr ''Linux''), (''browserName'', JStr ''Chrome'')]"

text \<open>
  A world for the examples: a desktop Chrome target with a driver service that starts
  and answers, a remote end that answers the probe after 150 ms, and a session export that
  succeeds. The two dedicated error constructors are the ones modelled from the spec.
\<close>

definition chromeWorld :: world where
  "chromeWorld =
     \<lparr>settings =
        \<lparr>desiredCapabilities = linuxChrome,
         webdriver =
           [(''host'', JStr ''localhost''), (''port'', JNum 9515),
            (''timeout_options'', JObj [(''timeout'', JNum 60000)])],
         output_enabled = False,
         testWorkersEnabled = False\<rparr>,
      mobile = mobileUtils,
      serviceName = ''ChromeDriver'',
      createSessionOptions = Inr (JObj linuxChrome),
      newService = Service 1,
      serviceInit = (\<lambda>svc. None),
      serviceStopped = (\<lambda>svc. False),
      serviceStop = (\<lambda>svc. None),
      getOutputFilePath = (\<lambda>svc. JStr ''logs/chromedriver.log''),
      getSettingsFormatted = (\<lambda>svc. ''{ port: 9515 }''),
      getSession =
        (\<lambda>d. Resolves 150
               \<lparr>getId = Inr (JStr ''a1b2''), getCapabilities = Inr linuxSession\<rparr>),
      serializeCapabilities = (\<lambda>c. Inr c),
      build = (\<lambda>options. Inr (Driver 2)),
      exported =
        (\<lambda>d. Inr \<lparr>sessionId = JStr ''a1b2'', capabilities = linuxSession,
                    sessionInfo = JObj [(''platform'', JStr ''linux''), (''appId'', JStr '''')],
                    elementKey = JStr ''element-6066-11e4-a52e-4f735466cecf''\<rparr>),
      isSafari = False,
      isIOS = False,
      IosSessionErrors = (\<lambda>n. JUndef),
      AndroidConnectionError = dedicatedError ''AndroidConnectionError'',
      IosSessionNotCreatedError = (\<lambda>err c. dedicatedError ''IosSessionNotCreatedError'' err),
      getRetryableErrorMessages =
        [''element is not attached to the page document'', ''Connection was closed'']\<rparr>"

text \<open>A cache with a driver and its snapshot.\<close>

definition warmCache :: transport where
  "warmCache =
     emptyCache
       \<lparr>driver := Some (Driver 1),
        cachedSessionInfo := Some \<lparr>sessionId = JStr ''a1b2'', capabilities = linuxSession\<rparr>\<rparr>"

section \<open>The classifier's paths, as the spec names them\<close>

text \<open>
  The error is re-wrapped into one of the two dedicated error types: no detail was
  attached before, a driver service is active, and the rewritten message has the Android
  pattern or the name is a known iOS session error on Safari on iOS.
\<close>

definition rewrapped :: "world \<Rightarrow> transport \<Rightarrow> js_error \<Rightarrow> jsval \<Rightarrow> jsval \<Rightarrow> bool" where
  "rewrapped w s err host port =
     (\<not> truthy (detailedErr err) \<and> this_driverService s \<noteq> None
      \<and> (adbFailure (rewriteMessage w err host port)
          \<or> iosSessionError w (rewriteMessage w err host port)))"

text \<open>Errors a connect can fail with, and result wrappers of element commands.\<close>

definition refusedError :: js_error where
  "refusedError =
     (newError PlainError ''connect ECONNREFUSED 127.0.0.1:9515'')
       \<lparr>err_code := JStr ''ECONNREFUSED''\<rparr>"

definition timedOutError :: js_error where
  "timedOutError =
     (newError PlainError ''connect ETIMEDOUT 10.0.0.5:4444'')\<lparr>err_code := JStr ''ETIMEDOUT''\<rparr>"

definition hintedError :: js_error where
  "hintedError =
     (newError PlainError ''webdriver.start_process is disabled in this environment'')
       \<lparr>err_code := JStr ''ETIMEDOUT''\<rparr>"

definition adbError :: js_error where
  "adbError =
     newError (OtherWebDriverError ''SessionNotCreatedError'')
       ''Failed to run adb command, is the Android SDK installed?''"

definition servedCache :: transport where
  "servedCache =
     warmCache\<lparr>driverService := Some (Service 1), this_driverService := Some (Service 1)\<rparr>"

definition staleError :: js_error where
  "staleError = newError StaleElementReferenceError ''stale element reference''"

definition closedError :: js_error where
  "closedError = newError WebDriverError ''unknown error: Connection was closed by peer''"

definition windowError :: js_error where
  "windowError = newError NoSuchWindowError ''no such window: target window already closed''"

section \<open>The cache's states and the probe's outcomes, as the spec names them\<close>

text \<open>The invariant of the data model: a snapshot is cached only while a driver is.\<close>

definition cacheInv :: "transport \<Rightarrow> bool" where
  "cacheInv s = (cachedSessionInfo s \<noteq> None \<longrightarrow> driver s \<noteq> None)"

text \<open>
  No capability mismatch stops the reuse check before the probe: nothing is cached, or the
  cached snapshot has no capabilities, or they match the desired ones.
\<close>

definition passesGate :: "world \<Rightarrow> transport \<Rightarrow> bool" where
  "passesGate w s =
     (case cachedSessionInfo s of
        None \<Rightarrow> True
      | Some info \<Rightarrow>
          \<not> capsTruthy (capabilities info)
          \<or> capabilitiesMatch (mobile w) (desiredCapabilities (settings w)) (capabilities info)
              = Inr True)"

text \<open>
  The liveness probe fails or times out: the remote end rejects, never answers, or answers
  at or after the deadline.
\<close>

definition probeFails :: "world \<Rightarrow> driver \<Rightarrow> bool" where
  "probeFails w d =
     (case getSession w d of
        Resolves t sess \<Rightarrow> probeTimeout (mobile w) (desiredCapabilities (settings w)) \<le> t
      | Rejects t e \<Rightarrow> True
      | Pending \<Rightarrow> True)"

text \<open>
  The driver service does not stand in the way of a connect: no local process is managed,
  or the running service is reused, or a new one starts. The outside calls it makes.
\<close>

definition serviceReady :: "world \<Rightarrow> transport \<Rightarrow> bool" where
  "serviceReady w s =
     (\<not> truthy (getProp (webdriver (settings w)) ''start_process'')
      \<or> shouldReuseDriverService w s True
      \<or> serviceInit w (newService w) = None)"

definition serviceEvents :: "world \<Rightarrow> transport \<Rightarrow> io_event list" where
  "serviceEvents w s =
     (if truthy (getProp (webdriver (settings w)) ''start_process'')
         \<and> \<not> shouldReuseDriverService w s True
      then [ServiceInit (newService w)] else [])"

text \<open>
  A cached session of another browser; a remote end that answers after 1500 ms, and one
  that never answers; an Android target with its cached session.
\<close>

definition staleCache :: transport where
  "staleCache =
     warmCache
       \<lparr>cachedSessionInfo :=
          Some \<lparr>sessionId = JStr ''a1b2'',
                capabilities = PlainCaps (JObj [(''browserName'', JStr ''firefox'')])\<rparr>\<rparr>"

definition slowWorld :: world where
  "slowWorld =
     chromeWorld
       \<lparr>getSession :=
          (\<lambda>d. Resolves 1500
                 \<lparr>getId = Inr (JStr ''a1b2''), getCapabilities = Inr linuxSession\<rparr>)\<rparr>"

definition deadWorld :: world where
  "deadWorld = chromeWorld\<lparr>getSession := (\<lambda>d. Pending)\<rparr>"

definition androidWorld :: world where
  "androidWorld =
     slowWorld\<lparr>settings := (settings slowWorld)\<lparr>desiredCapabilities := androidCaps\<rparr>\<rparr>"

definition androidCache :: transport where
  "androidCache =
     warmCache
       \<lparr>cachedSessionInfo := Some \<lparr>sessionId = JStr ''c3d4'', capabilities = sameDevice\<rparr>\<rparr>"

text \<open>
  The Chrome world with a session export that rejects, and with a driver service managed
  by the transport.
\<close>

definition exportFailsWorld :: world where
  "exportFailsWorld =
     chromeWorld\<lparr>exported := (\<lambda>d. Inl (newError NoSuchSessionError ''invalid session id''))\<rparr>"

definition managedWorld :: world where
  "managedWorld =
     chromeWorld
       \<lparr>settings :=
          (settings chromeWorld)
            \<lparr>webdriver := [(''host'', JStr ''localhost''), (''port'', JNum 9515),
                            (''start_process'', JBool True)]\<rparr>\<rparr>"

section \<open>Strings and maps: auxiliary facts\<close>

lemma getProp_deleteProp_same: "getProp (deleteProp obj key) key = JUndef"
  by (simp add: getProp_def deleteProp_def delete_conv')

lemma toLowerCase_Nil_iff [simp]: "toLowerCase s = [] \<longleftrightarrow> s = []"
  by (simp add: toLowerCase_def)

lemma bothDiffer_falsy:
  "\<not> truthy a \<Longrightarrow> bothDiffer a b = False"
  "\<not> truthy b \<Longrightarrow> bothDiffer a b = False"
  by (simp_all add: bothDiffer_def)

section \<open>Flattening is idempotent\<close>

lemma extractAppiumOptions_removes_bag:
  "isObject (getProp dc ''appium:options'') \<Longrightarrow>
     getProp (extractAppiumOptions dc) ''appium:options'' = JUndef"
  by (simp add: extractAppiumOptions_def Let_def getProp_deleteProp_same)

lemma extractAppiumOptions_unchanged:
  "\<not> isObject (getProp dc ''appium:options'') \<Longrightarrow> extractAppiumOptions dc = dc"
  by (simp add: extractAppiumOptions_def)

text \<open>
  C8. Flattening the options bag of a desired-capability map into top-level prefixed keys
  is idempotent: for every capability map, flattening twice gives the very map (the same
  entries in the same order) that flattening once gives; and a map that is flat already
  (it holds no options bag under \<^verbatim>\<open>appium:options\<close>) is left as it is.
\<close>

theorem extractAppiumOptions_idempotent:
  "extractAppiumOptions (extractAppiumOptions dc) = extractAppiumOptions dc
   \<and> (\<not> isObject (getProp dc ''appium:options'') \<longrightarrow> extractAppiumOptions dc = dc)"
proof (cases "isObject (getProp dc ''appium:options'')")
  case True
  then have "getProp (extractAppiumOptions dc) ''appium:options'' = JUndef"
    by (rule extractAppiumOptions_removes_bag)
  then have "\<not> isObject (getProp (extractAppiumOptions dc) ''appium:options'')"
    by simp
  then show ?thesis
    using True by (simp add: extractAppiumOptions_unchanged)
next
  case False
  then show ?thesis
    by (simp add: extractAppiumOptions_unchanged)
qed

theorem extractAppiumOptions_idempotent_witness:
  "extractAppiumOptions nestedCaps = flatCaps
   \<and> extractAppiumOptions (extractAppiumOptions nestedCaps) = flatCaps
   \<and> \<not> isObject (getProp flatCaps ''appium:options'')
   \<and> extractAppiumOptions flatCaps = flatCaps"
proof -
  have a: "extractAppiumOptions nestedCaps = flatCaps"
    by (simp add: nestedCaps_def flatCaps_def extractAppiumOptions_def Let_def objectKeys_def
        flattenKey_def getProp_def setProp_def deleteProp_def AList.delete_eq)
  have b: "\<not> isObject (getProp flatCaps ''appium:options'')"
    by (simp add: flatCaps_def getProp_def)
  show ?thesis
    using extractAppiumOptions_idempotent [of nestedCaps]
      extractAppiumOptions_idempotent [of flatCaps] a b
    by simp
qed

section \<open>What the matcher compares\<close>

lemma optToLowerCase_nameOk:
  "nameOk v \<Longrightarrow>
     \<exists>l. optToLowerCase v = Inr l \<and> truthy l = truthy (lowerName v)
          \<and> (truthy l \<longrightarrow> l = lowerName v)"
  by (cases v) (simp_all add: nameOk_def)

lemma platformDiffers_strings:
  assumes "nameOk (getProp d ''platformName'')"
    and "nameOk (getCapabilityValue e ''platformName'')"
    and "nameOk (getCapabilityValue e ''platform'')"
  shows "platformDiffers d e = Inr (platformNameDiffers d e)"
proof -
  obtain dp where dp: "optToLowerCase (getProp d ''platformName'') = Inr dp"
    "truthy dp = truthy (lowerName (getProp d ''platformName''))"
    "truthy dp \<longrightarrow> dp = lowerName (getProp d ''platformName'')"
    using optToLowerCase_nameOk [OF assms(1)] by blast
  obtain p1 where p1: "optToLowerCase (getCapabilityValue e ''platformName'') = Inr p1"
    "truthy p1 = truthy (lowerName (getCapabilityValue e ''platformName''))"
    "truthy p1 \<longrightarrow> p1 = lowerName (getCapabilityValue e ''platformName'')"
    using optToLowerCase_nameOk [OF assms(2)] by blast
  obtain p2 where p2: "optToLowerCase (getCapabilityValue e ''platform'') = Inr p2"
    "truthy p2 = truthy (lowerName (getCapabilityValue e ''platform''))"
    "truthy p2 \<longrightarrow> p2 = lowerName (getCapabilityValue e ''platform'')"
    using optToLowerCase_nameOk [OF assms(3)] by blast
  show ?thesis
  proof (cases "truthy dp")
    case False
    then show ?thesis
      using dp p1 p2
      by (simp add: platformDiffers_def platformNameDiffers_def bothDiffer_falsy)
  next
    case True
    then show ?thesis
      using dp p1 p2
      by (auto simp add: platformDiffers_def platformNameDiffers_def js_or_def bothDiffer_falsy)
  qed
qed

lemma browserDiffers_strings:
  assumes "nameOk (getProp d ''browserName'')"
    and "nameOk (getCapabilityValue e ''browserName'')"
  shows "browserDiffers d e = Inr (browserNameDiffers d e)"
  using assms
  by (cases "getProp d ''browserName''"; cases "getCapabilityValue e ''browserName''")
     (simp_all add: browserDiffers_def browserNameDiffers_def nameOk_def bothDiffer_def Let_def)

lemma capabilitiesMatch_absent:
  "\<not> capsTruthy e \<Longrightarrow> capabilitiesMatch h d e = Inr False"
  by (simp add: capabilitiesMatch_def)

lemma capabilitiesMatch_present:
  assumes "capsTruthy e" and "namesAreStrings d e"
  shows "capabilitiesMatch h d e =
           Inr (\<not> ((isMobile h d
                      \<and> (platformNameDiffers d e
                          \<or> (isIos h d \<and> iosDiffers d e)
                          \<or> (isAndroid h d \<and> androidDiffers d e)))
                    \<or> browserNameDiffers d e))"
proof -
  have p: "platformDiffers d e = Inr (platformNameDiffers d e)"
    using assms(2) by (simp add: namesAreStrings_def platformDiffers_strings)
  have b: "browserDiffers d e = Inr (browserNameDiffers d e)"
    using assms(2) by (simp add: namesAreStrings_def browserDiffers_strings)
  show ?thesis
    using assms(1) by (simp add: capabilitiesMatch_def p b)
qed

lemmas caps_eval =
  capabilitiesMatch_def platformDiffers_def browserDiffers_def iosDiffers_def
  androidDiffers_def fieldDiffers_def bothDiffer_def js_or_def getProp_def mobileUtils_def
  platformIs_def toLowerCase_def lowerChar_def platformNameDiffers_def browserNameDiffers_def
  namesAreStrings_def nameOk_def Let_def

text \<open>
  C6, as the code has it. Whatever the classification helpers are, and for capability
  maps whose platform and browser names are strings where they are given:
  \<^item> the matcher answers false when the existing capabilities are absent;
  \<^item> it answers true when the platform name, the four identifying fields (each read
    under its two keys) and the browser name are each absent (missing or falsy) on a side
    or equal (names compared in lower case);
  \<^item> it answers false when the browser name is there on both sides and differs, or the
    target is classified mobile and the platform name differs, or it is classified iOS and
    the device identifier or the bundle identifier differs, or it is classified Android and
    the device identifier or the application package differs;
  \<^item> it answers true when none of the fields compared for the target's platform differs:
    a platform name is compared for a mobile target only, the iOS fields for an iOS target
    only, the Android fields for an Android target only.
\<close>

theorem capabilitiesMatch_fields:
  "(\<not> capsTruthy e \<longrightarrow> capabilitiesMatch h d e = Inr False)
   \<and> (capsTruthy e \<and> namesAreStrings d e
        \<and> \<not> platformNameDiffers d e \<and> \<not> iosDiffers d e \<and> \<not> androidDiffers d e
        \<and> \<not> browserNameDiffers d e
      \<longrightarrow> capabilitiesMatch h d e = Inr True)
   \<and> (capsTruthy e \<and> namesAreStrings d e
        \<and> (browserNameDiffers d e
            \<or> (isMobile h d \<and> platformNameDiffers d e)
            \<or> (isMobile h d \<and> isIos h d \<and> iosDiffers d e)
            \<or> (isMobile h d \<and> isAndroid h d \<and> androidDiffers d e))
      \<longrightarrow> capabilitiesMatch h d e = Inr False)
   \<and> (capsTruthy e \<and> namesAreStrings d e
        \<and> \<not> browserNameDiffers d e
        \<and> (isMobile h d \<longrightarrow> \<not> platformNameDiffers d e)
        \<and> (isMobile h d \<and> isIos h d \<longrightarrow> \<not> iosDiffers d e)
        \<and> (isMobile h d \<and> isAndroid h d \<longrightarrow> \<not> androidDiffers d e)
      \<longrightarrow> capabilitiesMatch h d e = Inr True)"
  using capabilitiesMatch_absent [of e h d] capabilitiesMatch_present [of e d h]
  by auto

theorem capabilitiesMatch_fields_witness:
  "\<not> capsTruthy (PlainCaps JNull)
   \<and> capabilitiesMatch mobileUtils androidCaps (PlainCaps JNull) = Inr False
   \<and> capsTruthy linuxSession \<and> namesAreStrings linuxChrome linuxSession
   \<and> \<not> platformNameDiffers linuxChrome linuxSession \<and> \<not> iosDiffers linuxChrome linuxSession
   \<and> \<not> androidDiffers linuxChrome linuxSession \<and> \<not> browserNameDiffers linuxChrome linuxSession
   \<and> capabilitiesMatch mobileUtils linuxChrome linuxSession = Inr True
   \<and> capsTruthy otherDevice \<and> namesAreStrings androidCaps otherDevice
   \<and> isMobile mobileUtils androidCaps \<and> isAndroid mobileUtils androidCaps
   \<and> androidDiffers androidCaps otherDevice
   \<and> capabilitiesMatch mobileUtils androidCaps otherDevice = Inr False
   \<and> capsTruthy sameDevice \<and> namesAreStrings androidCaps sameDevice
   \<and> \<not> browserNameDiffers androidCaps sameDevice
   \<and> \<not> platformNameDiffers androidCaps sameDevice
   \<and> \<not> isIos mobileUtils androidCaps
   \<and> \<not> androidDiffers androidCaps sameDevice
   \<and> capabilitiesMatch mobileUtils androidCaps sameDevice = Inr True"
proof -
  have a: "\<not> capsTruthy (PlainCaps JNull)"
    by simp
  have b: "capsTruthy linuxSession \<and> namesAreStrings linuxChrome linuxSession
      \<and> \<not> platformNameDiffers linuxChrome linuxSession \<and> \<not> iosDiffers linuxChrome linuxSession
      \<and> \<not> androidDiffers linuxChrome linuxSession
      \<and> \<not> browserNameDiffers linuxChrome linuxSession"
    by (simp add: caps_eval linuxChrome_def linuxSession_def)
  have c: "capsTruthy otherDevice \<and> namesAreStrings androidCaps otherDevice
      \<and> isMobile mobileUtils androidCaps \<and> isAndroid mobileUtils androidCaps
      \<and> androidDiffers androidCaps otherDevice"
    by (simp add: caps_eval androidCaps_def otherDevice_def)
  have d: "capsTruthy sameDevice \<and> namesAreStrings androidCaps sameDevice
      \<and> \<not> browserNameDiffers androidCaps sameDevice
      \<and> \<not> platformNameDiffers androidCaps sameDevice
      \<and> \<not> isIos mobileUtils androidCaps
      \<and> \<not> androidDiffers androidCaps sameDevice"
    by (simp add: caps_eval androidCaps_def sameDevice_def)
  have ra: "capabilitiesMatch mobileUtils androidCaps (PlainCaps JNull) = Inr False"
    using a capabilitiesMatch_fields [of "PlainCaps JNull" mobileUtils androidCaps]
    by (simp only: simp_thms)
  have rb: "capabilitiesMatch mobileUtils linuxChrome linuxSession = Inr True"
    using b capabilitiesMatch_fields [of linuxSession mobileUtils linuxChrome]
    by (simp only: simp_thms)
  have rc: "capabilitiesMatch mobileUtils androidCaps otherDevice = Inr False"
    using c capabilitiesMatch_fields [of otherDevice mobileUtils androidCaps]
    by (simp only: simp_thms)
  have rd: "capabilitiesMatch mobileUtils androidCaps sameDevice = Inr True"
    using d capabilitiesMatch_fields [of sameDevice mobileUtils androidCaps]
    by (simp only: simp_thms)
  show ?thesis
    using a b c d ra rb rc rd by (simp only: simp_thms)
qed

text \<open>
  C6 as it was stated fails on its last part: a field that is there on both sides and
  differs does not always give false. The platform name of a desktop target is not
  compared (Linux wanted, a Windows session cached: true), and an iOS field of an Android
  target is not compared (the bundle identifiers differ: true).
\<close>

theorem capabilitiesMatch_fields_counterexample:
  "platformNameDiffers linuxChrome windowsChrome
   \<and> capabilitiesMatch mobileUtils linuxChrome windowsChrome = Inr True
   \<and> iosDiffers androidCaps sameDevice
   \<and> capabilitiesMatch mobileUtils androidCaps sameDevice = Inr True"
  by (simp add: caps_eval linuxChrome_def windowsChrome_def androidCaps_def sameDevice_def)

section \<open>Retryable element errors\<close>

lemma isRetryable_element_kinds:
  assumes "getErrorResponse res = Some e"
    and "err_class e \<in> {StaleElementReferenceError, ElementClickInterceptedError,
                         InvalidElementStateError, ElementNotInteractableError}"
    and "err_name e = className (err_class e)"
  shows "isRetryableElementError w res"
  using assms
  by (auto simp add: isRetryableElementError_def genericWebDriverError_def
      staleElementReference_def elementClickInterceptedError_def invalidElementStateError_def
      elementNotInteractableError_def)

lemma isRetryable_generic:
  assumes "getErrorResponse res = Some e"
    and "instanceofWebDriverError (err_class e)"
    and "err_name e = ''WebDriverError''"
  shows "isRetryableElementError w res
          = (\<exists>item \<in> set (getRetryableErrorMessages w). str_includes (err_message e) item)"
  using assms
  by (simp add: isRetryableElementError_def genericWebDriverError_def messageOf_def list_ex_iff)

lemma isRetryable_unrelated:
  assumes "getErrorResponse res = Some e"
    and "err_class e \<notin> {StaleElementReferenceError, ElementClickInterceptedError,
                         InvalidElementStateError, ElementNotInteractableError}"
    and "\<forall>item \<in> set (getRetryableErrorMessages w). \<not> str_includes (err_message e) item"
  shows "\<not> isRetryableElementError w res"
  using assms
  by (auto simp add: isRetryableElementError_def genericWebDriverError_def messageOf_def
      list_ex_iff staleElementReference_def elementClickInterceptedError_def invalidElementStateError_def
      elementNotInteractableError_def)

text \<open>
  C7. For every result wrapper: isRetryableElementError is true when the underlying error
  is of one of the four element-state kinds (stale element reference, element click
  intercepted, invalid element state, element not interactable; the error carrying its
  kind's own name, as the library builds it), and true when it is a generically typed
  protocol error (a \<^verbatim>\<open>WebDriverError\<close> named so) whose message contains one of the
  configured transient substrings; it is false for an error of none of the four kinds
  whose message contains none of the substrings.
\<close>

theorem isRetryableElementError_kinds:
  "(getErrorResponse res = Some e
      \<and> err_class e \<in> {StaleElementReferenceError, ElementClickInterceptedError,
                         InvalidElementStateError, ElementNotInteractableError}
      \<and> err_name e = className (err_class e)
    \<longrightarrow> isRetryableElementError w res)
   \<and> (getErrorResponse res = Some e
      \<and> instanceofWebDriverError (err_class e) \<and> err_name e = ''WebDriverError''
      \<and> (\<exists>item \<in> set (getRetryableErrorMessages w). str_includes (err_message e) item)
    \<longrightarrow> isRetryableElementError w res)
   \<and> (getErrorResponse res = Some e
      \<and> err_class e \<notin> {StaleElementReferenceError, ElementClickInterceptedError,
                         InvalidElementStateError, ElementNotInteractableError}
      \<and> (\<forall>item \<in> set (getRetryableErrorMessages w). \<not> str_includes (err_message e) item)
    \<longrightarrow> \<not> isRetryableElementError w res)"
  using isRetryable_element_kinds [of res e w] isRetryable_generic [of res e w]
    isRetryable_unrelated [of res e w]
  by blast

theorem isRetryableElementError_kinds_witness:
  "isRetryableElementError chromeWorld (ObjectResult (Some staleError))
   \<and> isRetryableElementError chromeWorld (ErrorResult closedError)
   \<and> \<not> isRetryableElementError chromeWorld (ErrorResult windowError)"
proof -
  have a: "getErrorResponse (ObjectResult (Some staleError)) = Some staleError
      \<and> err_class staleError \<in> {StaleElementReferenceError, ElementClickInterceptedError,
                         InvalidElementStateError, ElementNotInteractableError}
      \<and> err_name staleError = className (err_class staleError)"
    by (simp add: staleError_def newError_def)
  have b: "getErrorResponse (ErrorResult closedError) = Some closedError
      \<and> instanceofWebDriverError (err_class closedError)
      \<and> err_name closedError = ''WebDriverError''
      \<and> (\<exists>item \<in> set (getRetryableErrorMessages chromeWorld).
            str_includes (err_message closedError) item)"
    by (simp add: closedError_def newError_def chromeWorld_def)
  have c: "getErrorResponse (ErrorResult windowError) = Some windowError
      \<and> err_class windowError \<notin> {StaleElementReferenceError, ElementClickInterceptedError,
                         InvalidElementStateError, ElementNotInteractableError}
      \<and> (\<forall>item \<in> set (getRetryableErrorMessages chromeWorld).
            \<not> str_includes (err_message windowError) item)"
    by (simp add: windowError_def newError_def chromeWorld_def)
  have ra: "isRetryableElementError chromeWorld (ObjectResult (Some staleError))"
    using a isRetryableElementError_kinds
      [where res = "ObjectResult (Some staleError)" and e = staleError and w = chromeWorld]
    by (simp only: simp_thms)
  have rb: "isRetryableElementError chromeWorld (ErrorResult closedError)"
    using b isRetryableElementError_kinds
      [where res = "ErrorResult closedError" and e = closedError and w = chromeWorld]
    by (simp only: simp_thms)
  have rc: "\<not> isRetryableElementError chromeWorld (ErrorResult windowError)"
    using c isRetryableElementError_kinds
      [where res = "ErrorResult windowError" and e = windowError and w = chromeWorld]
    by blast
  show ?thesis
    using ra rb rc by (simp only: simp_thms)
qed

section \<open>The connect-error classifier\<close>

lemma startsWith_prefix: "startsWith s p \<longleftrightarrow> prefix p s"
  by (induction s p rule: startsWith.induct) auto

lemma str_includes_sublist: "str_includes s item \<longleftrightarrow> sublist item s"
proof (induction s)
  case Nil
  then show ?case by auto
next
  case (Cons c cs)
  then show ?case
    by (simp add: startsWith_prefix sublist_Cons_right)
qed

lemma str_includes_appendI: "str_includes (a @ item @ b) item"
  by (simp add: str_includes_sublist)

lemma sublist_separator:
  assumes "c \<notin> set p"
  shows "sublist p (xs @ c # ys) \<longleftrightarrow> sublist p xs \<or> sublist p ys"
proof
  assume "sublist p (xs @ c # ys)"
  then consider "sublist p xs" | "sublist p (c # ys)"
    | xs1 xs2 where "p = xs1 @ xs2" "suffix xs1 xs" "prefix xs2 (c # ys)"
    by (auto simp add: sublist_append)
  then show "sublist p xs \<or> sublist p ys"
  proof cases
    case 1
    then show ?thesis by simp
  next
    case 2
    then have "prefix p (c # ys) \<or> sublist p ys"
      by (simp add: sublist_Cons_right)
    moreover have "prefix p (c # ys) \<Longrightarrow> p = []"
      using assms by (cases p) auto
    ultimately show ?thesis by auto
  next
    case 3
    have "xs2 = []"
      using 3(1,3) assms by (cases xs2) auto
    then have "suffix p xs"
      using 3(1,2) by simp
    then show ?thesis by auto
  qed
next
  assume "sublist p xs \<or> sublist p ys"
  then show "sublist p (xs @ c # ys)"
    by (auto simp add: sublist_append sublist_Cons_right)
qed

lemma rewriteMessage_refused:
  assumes "err_code err = JStr ''ECONNREFUSED''"
  shows "str_includes (err_message (rewriteMessage w err host port))
           (jsToString host @ '':'' @ jsToString port)"
    and "str_includes (err_message (rewriteMessage w err host port)) startProcessHint"
    and "str_includes (err_message (rewriteMessage w err host port)) ''start_process''"
proof -
  let ?m = "err_message (rewriteMessage w err host port)"
  have m: "?m = (errMsg w @ '' Connection refused to '') @ (jsToString host @ '':'' @ jsToString port)
                 @ (''. '' @ startProcessHint)"
    using assms by (simp add: rewriteMessage_def)
  show "str_includes ?m (jsToString host @ '':'' @ jsToString port)"
    unfolding m by (rule str_includes_appendI)
  have m2: "?m = (errMsg w @ '' Connection refused to '' @ jsToString host @ '':'' @ jsToString port
                 @ ''. '') @ startProcessHint @ []"
    using assms by (simp add: rewriteMessage_def)
  show "str_includes ?m startProcessHint"
    unfolding m2 by (rule str_includes_appendI)
  have m3: "?m = (errMsg w @ '' Connection refused to '' @ jsToString host @ '':'' @ jsToString port
                 @ ''. If the Webdriver/Selenium service is managed by Nightwatch, check if '' @ dq)
                 @ ''start_process'' @ (dq @ '' is set to '' @ dq @ ''true'' @ dq @ ''.'')"
    using assms by (simp add: rewriteMessage_def startProcessHint_def)
  show "str_includes ?m ''start_process''"
    unfolding m3 by (rule str_includes_appendI)
qed

lemma rewriteMessage_other:
  assumes "err_code err \<noteq> JStr ''ECONNREFUSED''"
  shows "err_message (rewriteMessage w err host port)
           = errMsg w @ '' ['' @ err_name err @ ''] '' @ err_message err"
  using assms by (simp add: rewriteMessage_def)

lemma hint_in_generic_message:
  "sublist ''start_process''
     (errMsg w @ '' ['' @ name @ ''] '' @ msg)
   \<longleftrightarrow> sublist ''start_process'' (serviceName w) \<or> sublist ''start_process'' name
        \<or> sublist ''start_process'' msg"
proof -
  let ?p = "''start_process''"
  have sp: "CHR '' '' \<notin> set ?p" "CHR ''['' \<notin> set ?p" "CHR '']'' \<notin> set ?p"
    by simp_all
  have shape: "errMsg w @ '' ['' @ name @ ''] '' @ msg
      = ''An error occurred while creating a new'' @ CHR '' '' #
          (serviceName w @ CHR '' '' #
             (''session:'' @ CHR '' '' #
                ([] @ CHR ''['' # (name @ CHR '']'' # ([] @ CHR '' '' # msg)))))"
    by (simp add: errMsg_def)
  have f1: "\<not> sublist ?p ''An error occurred while creating a new''"
    by (simp add: str_includes_sublist [symmetric])
  have f2: "\<not> sublist ?p ''session:''"
    by (simp add: str_includes_sublist [symmetric])
  show ?thesis
    unfolding shape
    by (simp only: sublist_separator [OF sp(1)] sublist_separator [OF sp(2)]
        sublist_separator [OF sp(3)] f1 f2 simp_thms sublist_Nil_right list.simps)
qed

lemma attachDetail_keeps:
  "err_message (attachDetail w svc e) = err_message e"
  "err_name (attachDetail w svc e) = err_name e"
  "showTrace (attachDetail w svc e) = showTrace e"
  "reportShown (attachDetail w svc e) = reportShown e"
  by (simp_all add: attachDetail_def Let_def)

lemma rewriteMessage_keeps:
  "detailedErr (rewriteMessage w err host port) = detailedErr err"
  "err_name (rewriteMessage w err host port) = err_name err"
  "showTrace (rewriteMessage w err host port) = showTrace err"
  "reportShown (rewriteMessage w err host port) = reportShown err"
  by (simp_all add: rewriteMessage_def)

lemma adbFailure_attachDetail: "adbFailure (attachDetail w svc e) = adbFailure e"
  by (simp add: adbFailure_def attachDetail_keeps)

lemma iosSessionError_attachDetail: "iosSessionError w (attachDetail w svc e) = iosSessionError w e"
  by (simp add: iosSessionError_def attachDetail_keeps)

lemma handleConnectError_not_rewrapped:
  assumes "\<not> rewrapped w s err host port"
  shows "showTrace (handleConnectError w s err host port) = JBool False"
    and "reportShown (handleConnectError w s err host port) = JBool True"
    and "err_message (handleConnectError w s err host port)
           = err_message (rewriteMessage w err host port)"
  using assms
  by (auto simp add: handleConnectError_def rewrapped_def Let_def rewriteMessage_keeps
      adbFailure_attachDetail iosSessionError_attachDetail attachDetail_keeps
      split: option.splits)

lemma handleConnectError_rewrapped:
  assumes "rewrapped w s err host port"
  shows "\<exists>svc. this_driverService s = Some svc
           \<and> handleConnectError w s err host port
               = (if adbFailure (rewriteMessage w err host port)
                  then AndroidConnectionError w
                         (attachDetail w svc (rewriteMessage w err host port))
                  else IosSessionNotCreatedError w
                         (attachDetail w svc (rewriteMessage w err host port))
                         (desiredCapabilities (settings w)))
           \<and> showTrace (attachDetail w svc (rewriteMessage w err host port)) = showTrace err
           \<and> reportShown (attachDetail w svc (rewriteMessage w err host port))
               = reportShown err"
  using assms
  by (auto simp add: handleConnectError_def rewrapped_def Let_def rewriteMessage_keeps
      adbFailure_attachDetail iosSessionError_attachDetail attachDetail_keeps)

lemmas err_eval =
  handleConnectError_def rewriteMessage_def attachDetail_def adbFailure_def
  iosSessionError_def rewrapped_def errMsg_def startProcessHint_def dq_def nl_def
  newError_def dedicatedError_def chromeWorld_def emptyCache_def warmCache_def Let_def

text \<open>
  C2, as the code has it. For every input error that handleConnectError does not re-wrap,
  the error it returns is marked: showTrace is false and reportShown is true. When the
  error is re-wrapped, what is returned is the dedicated error as its constructor built it
  from the input error with message and detail attached (the Android one when the message
  has the Android pattern, the iOS one otherwise); handleConnectError sets neither mark
  on that path, and the error handed to the constructor has the marks the input had.
\<close>

theorem handleConnectError_marks:
  "(\<not> rewrapped w s err host port \<longrightarrow>
      showTrace (handleConnectError w s err host port) = JBool False
      \<and> reportShown (handleConnectError w s err host port) = JBool True)
   \<and> (rewrapped w s err host port \<longrightarrow>
        (\<exists>svc. this_driverService s = Some svc
           \<and> handleConnectError w s err host port
               = (if adbFailure (rewriteMessage w err host port)
                  then AndroidConnectionError w
                         (attachDetail w svc (rewriteMessage w err host port))
                  else IosSessionNotCreatedError w
                         (attachDetail w svc (rewriteMessage w err host port))
                         (desiredCapabilities (settings w)))
           \<and> showTrace (attachDetail w svc (rewriteMessage w err host port)) = showTrace err
           \<and> reportShown (attachDetail w svc (rewriteMessage w err host port))
               = reportShown err))"
  using handleConnectError_not_rewrapped(1,2) [of w s err host port]
    handleConnectError_rewrapped [of w s err host port]
  by blast

theorem handleConnectError_marks_witness:
  "\<not> rewrapped chromeWorld emptyCache refusedError (JStr ''localhost'') (JNum 9515)
   \<and> showTrace
        (handleConnectError chromeWorld emptyCache refusedError (JStr ''localhost'') (JNum 9515))
       = JBool False
   \<and> reportShown
        (handleConnectError chromeWorld emptyCache refusedError (JStr ''localhost'') (JNum 9515))
       = JBool True
   \<and> rewrapped chromeWorld servedCache adbError (JStr ''localhost'') (JNum 9515)
   \<and> handleConnectError chromeWorld servedCache adbError (JStr ''localhost'') (JNum 9515)
       = AndroidConnectionError chromeWorld
           (attachDetail chromeWorld (Service 1)
              (rewriteMessage chromeWorld adbError (JStr ''localhost'') (JNum 9515)))"
proof -
  have a: "\<not> rewrapped chromeWorld emptyCache refusedError (JStr ''localhost'') (JNum 9515)"
    by (simp add: err_eval refusedError_def)
  have b: "rewrapped chromeWorld servedCache adbError (JStr ''localhost'') (JNum 9515)"
    by (simp add: err_eval servedCache_def adbError_def)
  have c: "this_driverService servedCache = Some (Service 1)"
    by (simp add: servedCache_def warmCache_def emptyCache_def)
  have d: "adbFailure (rewriteMessage chromeWorld adbError (JStr ''localhost'') (JNum 9515))"
    by (simp add: err_eval adbError_def)
  have ra: "showTrace
        (handleConnectError chromeWorld emptyCache refusedError (JStr ''localhost'') (JNum 9515))
       = JBool False
     \<and> reportShown
        (handleConnectError chromeWorld emptyCache refusedError (JStr ''localhost'') (JNum 9515))
       = JBool True"
    using a handleConnectError_marks
      [where w = chromeWorld and s = emptyCache and err = refusedError
         and host = "JStr ''localhost''" and port = "JNum 9515"]
    by (simp only: simp_thms)
  obtain svc where svc: "this_driverService servedCache = Some svc"
    "handleConnectError chromeWorld servedCache adbError (JStr ''localhost'') (JNum 9515)
       = (if adbFailure (rewriteMessage chromeWorld adbError (JStr ''localhost'') (JNum 9515))
          then AndroidConnectionError chromeWorld
                 (attachDetail chromeWorld svc
                    (rewriteMessage chromeWorld adbError (JStr ''localhost'') (JNum 9515)))
          else IosSessionNotCreatedError chromeWorld
                 (attachDetail chromeWorld svc
                    (rewriteMessage chromeWorld adbError (JStr ''localhost'') (JNum 9515)))
                 (desiredCapabilities (settings chromeWorld)))"
    using b handleConnectError_marks
      [where w = chromeWorld and s = servedCache and err = adbError
         and host = "JStr ''localhost''" and port = "JNum 9515"]
    by blast
  have rb: "handleConnectError chromeWorld servedCache adbError (JStr ''localhost'') (JNum 9515)
       = AndroidConnectionError chromeWorld
           (attachDetail chromeWorld (Service 1)
              (rewriteMessage chromeWorld adbError (JStr ''localhost'') (JNum 9515)))"
    using svc c d by simp
  show ?thesis
    using a b ra rb by (simp only: simp_thms)
qed

text \<open>
  C2 as it was stated fails on the re-wrapped errors: with the dedicated Android error
  built as the spec describes it (a new error carrying message and detail), an adb failure
  under an active driver service comes back with neither mark set.
\<close>

theorem handleConnectError_marks_counterexample:
  "showTrace (handleConnectError chromeWorld servedCache adbError (JStr ''localhost'') (JNum 9515))
     = JUndef
   \<and> reportShown
        (handleConnectError chromeWorld servedCache adbError (JStr ''localhost'') (JNum 9515))
     = JUndef"
  by (simp add: err_eval servedCache_def adbError_def)

text \<open>
  C9, as the code has it. For every error whose code is the connection-refused code, the
  message handleConnectError writes contains host and port (as \<^verbatim>\<open>host:port\<close>) and the
  hint naming the start_process setting. For every error with another code, the message
  is the generic prefix naming the service, the error's name in brackets and the original
  message; it mentions start_process exactly when the service name, the error's name or
  the original message already does. When the error is not re-wrapped, the returned error
  carries that message.
\<close>

theorem handleConnectError_message:
  "(err_code err = JStr ''ECONNREFUSED'' \<longrightarrow>
      str_includes (err_message (rewriteMessage w err host port))
        (jsToString host @ '':'' @ jsToString port)
      \<and> str_includes (err_message (rewriteMessage w err host port)) startProcessHint
      \<and> str_includes (err_message (rewriteMessage w err host port)) ''start_process'')
   \<and> (err_code err \<noteq> JStr ''ECONNREFUSED'' \<longrightarrow>
        err_message (rewriteMessage w err host port)
          = errMsg w @ '' ['' @ err_name err @ ''] '' @ err_message err
        \<and> (str_includes (err_message (rewriteMessage w err host port)) ''start_process''
             \<longleftrightarrow> str_includes (serviceName w) ''start_process''
                  \<or> str_includes (err_name err) ''start_process''
                  \<or> str_includes (err_message err) ''start_process''))
   \<and> (\<not> rewrapped w s err host port \<longrightarrow>
        err_message (handleConnectError w s err host port)
          = err_message (rewriteMessage w err host port))"
proof -
  have refused: "err_code err = JStr ''ECONNREFUSED'' \<longrightarrow>
      str_includes (err_message (rewriteMessage w err host port))
        (jsToString host @ '':'' @ jsToString port)
      \<and> str_includes (err_message (rewriteMessage w err host port)) startProcessHint
      \<and> str_includes (err_message (rewriteMessage w err host port)) ''start_process''"
    using rewriteMessage_refused [of err w host port] by blast
  have other: "err_code err \<noteq> JStr ''ECONNREFUSED'' \<longrightarrow>
        err_message (rewriteMessage w err host port)
          = errMsg w @ '' ['' @ err_name err @ ''] '' @ err_message err
        \<and> (str_includes (err_message (rewriteMessage w err host port)) ''start_process''
             \<longleftrightarrow> str_includes (serviceName w) ''start_process''
                  \<or> str_includes (err_name err) ''start_process''
                  \<or> str_includes (err_message err) ''start_process'')"
  proof (intro impI conjI)
    assume a: "err_code err \<noteq> JStr ''ECONNREFUSED''"
    show "err_message (rewriteMessage w err host port)
            = errMsg w @ '' ['' @ err_name err @ ''] '' @ err_message err"
      using a by (rule rewriteMessage_other)
    show "str_includes (err_message (rewriteMessage w err host port)) ''start_process''
            \<longleftrightarrow> str_includes (serviceName w) ''start_process''
                 \<or> str_includes (err_name err) ''start_process''
                 \<or> str_includes (err_message err) ''start_process''"
      unfolding rewriteMessage_other [OF a] str_includes_sublist
      by (rule hint_in_generic_message)
  qed
  have kept: "\<not> rewrapped w s err host port \<longrightarrow>
        err_message (handleConnectError w s err host port)
          = err_message (rewriteMessage w err host port)"
    using handleConnectError_not_rewrapped(3) [of w s err host port] by blast
  show ?thesis
    using refused other kept by (simp only: simp_thms)
qed

theorem handleConnectError_message_witness:
  "err_code refusedError = JStr ''ECONNREFUSED''
   \<and> str_includes
        (err_message (rewriteMessage chromeWorld refusedError (JStr ''localhost'') (JNum 9515)))
        ''localhost:9515''
   \<and> str_includes
        (err_message (rewriteMessage chromeWorld refusedError (JStr ''localhost'') (JNum 9515)))
        ''start_process''
   \<and> err_code timedOutError \<noteq> JStr ''ECONNREFUSED''
   \<and> \<not> str_includes
        (err_message (rewriteMessage chromeWorld timedOutError (JStr ''localhost'') (JNum 9515)))
        ''start_process''
   \<and> \<not> rewrapped chromeWorld emptyCache refusedError (JStr ''localhost'') (JNum 9515)
   \<and> err_message
        (handleConnectError chromeWorld emptyCache refusedError (JStr ''localhost'') (JNum 9515))
       = err_message (rewriteMessage chromeWorld refusedError (JStr ''localhost'') (JNum 9515))"
proof -
  have a: "err_code refusedError = JStr ''ECONNREFUSED''"
    by (simp add: refusedError_def newError_def)
  have b: "err_code timedOutError \<noteq> JStr ''ECONNREFUSED''"
    by (simp add: timedOutError_def newError_def)
  have c: "\<not> str_includes (serviceName chromeWorld) ''start_process''
      \<and> \<not> str_includes (err_name timedOutError) ''start_process''
      \<and> \<not> str_includes (err_message timedOutError) ''start_process''"
    by (simp add: err_eval timedOutError_def)
  have d: "\<not> rewrapped chromeWorld emptyCache refusedError (JStr ''localhost'') (JNum 9515)"
    by (simp add: err_eval refusedError_def)
  have e: "jsToString (JStr ''localhost'') @ '':'' @ jsToString (JNum 9515) = ''localhost:9515''"
    by (simp add: digitsOf.simps)
  have ra: "str_includes
        (err_message (rewriteMessage chromeWorld refusedError (JStr ''localhost'') (JNum 9515)))
        (jsToString (JStr ''localhost'') @ '':'' @ jsToString (JNum 9515))
     \<and> str_includes
        (err_message (rewriteMessage chromeWorld refusedError (JStr ''localhost'') (JNum 9515)))
        ''start_process''"
    using a handleConnectError_message
      [where w = chromeWorld and s = emptyCache and err = refusedError
         and host = "JStr ''localhost''" and port = "JNum 9515"]
    by (simp only: simp_thms)
  have rb: "\<not> str_includes
        (err_message (rewriteMessage chromeWorld timedOutError (JStr ''localhost'') (JNum 9515)))
        ''start_process''"
    using b c handleConnectError_message
      [where w = chromeWorld and s = emptyCache and err = timedOutError
         and host = "JStr ''localhost''" and port = "JNum 9515"]
    by blast
  have rc: "err_message
        (handleConnectError chromeWorld emptyCache refusedError (JStr ''localhost'') (JNum 9515))
       = err_message (rewriteMessage chromeWorld refusedError (JStr ''localhost'') (JNum 9515))"
    using d handleConnectError_message
      [where w = chromeWorld and s = emptyCache and err = refusedError
         and host = "JStr ''localhost''" and port = "JNum 9515"]
    by (simp only: simp_thms)
  show ?thesis
    using a b d ra rb rc unfolding e by (simp only: simp_thms)
qed

text \<open>
  C9 as it was stated fails on its last part: an error with another code whose own
  message names the setting keeps that message, so the message produced mentions it.
\<close>

theorem handleConnectError_message_counterexample:
  "err_code hintedError \<noteq> JStr ''ECONNREFUSED''
   \<and> str_includes
        (err_message
           (handleConnectError chromeWorld emptyCache hintedError (JStr ''localhost'') (JNum 9515)))
        ''start_process''"
  by (simp add: err_eval hintedError_def)

section \<open>The reuse decision\<close>

lemma fillCache_frame:
  "driver (fillCache w s sess) = driver s"
  "driverService (fillCache w s sess) = driverService s"
  "this_driver (fillCache w s sess) = this_driver s"
  "this_driverService (fillCache w s sess) = this_driverService s"
  by (simp_all add: fillCache_def Let_def split: option.splits sum.splits)

lemma fillCache_cached:
  "cachedSessionInfo s = Some info \<Longrightarrow> fillCache w s sess = s"
  by (simp add: fillCache_def)

lemma probeDriver_frame:
  "driverService (snd (probeDriver w s d)) = driverService s"
  "this_driverService (snd (probeDriver w s d)) = this_driverService s"
  "this_driver (snd (probeDriver w s d)) = this_driver s"
  by (simp_all add: probeDriver_def Let_def fillCache_frame split: sum.splits)

lemma probeDriver_cases:
  "(fst (probeDriver w s d) = Inr True \<and> driver (snd (probeDriver w s d)) = driver s)
   \<or> (fst (probeDriver w s d) = Inr False \<and> driver (snd (probeDriver w s d)) = None
       \<and> cachedSessionInfo (snd (probeDriver w s d)) = None)"
  by (simp add: probeDriver_def Let_def fillCache_frame split: sum.splits)

lemma probeDriver_fails:
  "probeFails w d \<Longrightarrow>
     probeDriver w s d
       = (Inr False, s\<lparr>trace := trace s @ [GetSession d], driver := None,
                        cachedSessionInfo := None\<rparr>)"
  by (auto simp add: probeDriver_def probeFails_def raceTimeout_def Let_def
      split: promise.splits)

lemma probeDriver_resolves:
  "getSession w d = Resolves t sess \<Longrightarrow>
     fst (probeDriver w s d)
       = Inr (t < probeTimeout (mobile w) (desiredCapabilities (settings w)))"
  by (simp add: probeDriver_def raceTimeout_def Let_def)

lemma probeDriver_succeeds:
  "getSession w d = Resolves t sess \<Longrightarrow>
   t < probeTimeout (mobile w) (desiredCapabilities (settings w)) \<Longrightarrow>
     probeDriver w s d = (Inr True, fillCache w (s\<lparr>trace := trace s @ [GetSession d]\<rparr>) sess)"
  by (simp add: probeDriver_def raceTimeout_def Let_def)

lemma shouldReuseDriver_off: "shouldReuseDriver w s False = (Inr False, s)"
  by (simp add: shouldReuseDriver_def)

lemma shouldReuseDriver_no_driver:
  "driver s = None \<Longrightarrow> shouldReuseDriver w s r = (Inr False, s)"
  by (simp add: shouldReuseDriver_def)

lemma shouldReuseDriver_mismatch:
  assumes "driver s = Some d" and "cachedSessionInfo s = Some info"
    and "capsTruthy (capabilities info)"
    and "capabilitiesMatch (mobile w) (desiredCapabilities (settings w)) (capabilities info)
           = Inr False"
  shows "shouldReuseDriver w s True
           = (Inr False, s\<lparr>driver := None, cachedSessionInfo := None\<rparr>)"
  using assms by (simp add: shouldReuseDriver_def)

lemma shouldReuseDriver_probe:
  assumes "driver s = Some d" and "passesGate w s"
  shows "shouldReuseDriver w s True = probeDriver w s d"
  using assms
  by (auto simp add: shouldReuseDriver_def passesGate_def split: option.splits)

lemma shouldReuseDriver_cases:
  "(\<exists>e. shouldReuseDriver w s r = (Inl e, s))
   \<or> shouldReuseDriver w s r = (Inr False, s)
   \<or> shouldReuseDriver w s r = (Inr False, s\<lparr>driver := None, cachedSessionInfo := None\<rparr>)
   \<or> (\<exists>d. driver s = Some d \<and> shouldReuseDriver w s r = probeDriver w s d)"
  by (auto simp add: shouldReuseDriver_def split: option.splits sum.splits)

lemma shouldReuseDriver_frame_aux:
  "driverService (snd (shouldReuseDriver w s r)) = driverService s
   \<and> this_driverService (snd (shouldReuseDriver w s r)) = this_driverService s
   \<and> (driver (snd (shouldReuseDriver w s r)) = driver s
       \<or> driver (snd (shouldReuseDriver w s r)) = None)"
  using shouldReuseDriver_cases [of w s r] probeDriver_cases [of w s]
    probeDriver_frame [of w s]
  by (elim disjE exE conjE) (simp_all, metis)

lemma shouldReuseDriver_true:
  assumes "fst (shouldReuseDriver w s r) = Inr True"
  shows "driver (snd (shouldReuseDriver w s r)) = driver s \<and> driver s \<noteq> None"
proof -
  obtain d where d: "driver s = Some d" "shouldReuseDriver w s r = probeDriver w s d"
    using shouldReuseDriver_cases [of w s r] assms by auto
  show ?thesis
    using probeDriver_cases [of w s d] d assms by auto
qed

lemma shouldReuseDriver_false:
  assumes "driver s \<noteq> None" and "fst (shouldReuseDriver w s True) = Inr False"
  shows "driver (snd (shouldReuseDriver w s True)) = None
         \<and> cachedSessionInfo (snd (shouldReuseDriver w s True)) = None"
proof -
  obtain d where d: "driver s = Some d"
    using assms(1) by auto
  show ?thesis
  proof (cases "cachedSessionInfo s")
    case None
    then have "shouldReuseDriver w s True = probeDriver w s d"
      using d by (simp add: shouldReuseDriver_def)
    then show ?thesis
      using probeDriver_cases [of w s d] assms(2) by auto
  next
    case (Some info)
    then show ?thesis
      using d assms(2) probeDriver_cases [of w s d]
      by (auto simp add: shouldReuseDriver_def split: if_splits sum.splits)
  qed
qed

lemma shouldReuseDriver_inv:
  assumes "cacheInv s"
  shows "cacheInv (snd (shouldReuseDriver w s r))"
proof -
  consider e where "shouldReuseDriver w s r = (Inl e, s)"
    | "shouldReuseDriver w s r = (Inr False, s)"
    | "shouldReuseDriver w s r = (Inr False, s\<lparr>driver := None, cachedSessionInfo := None\<rparr>)"
    | d where "driver s = Some d" "shouldReuseDriver w s r = probeDriver w s d"
    using shouldReuseDriver_cases [of w s r] by blast
  then show ?thesis
  proof cases
    case 1
    then show ?thesis using assms by simp
  next
    case 2
    then show ?thesis using assms by simp
  next
    case 3
    then show ?thesis by (simp add: cacheInv_def)
  next
    case 4
    then show ?thesis
      using probeDriver_cases [of w s d] by (auto simp add: cacheInv_def)
  qed
qed

lemma fillCache_knobs:
  "fillCache (w\<lparr>settings := (settings w)\<lparr>webdriver := knobs\<rparr>\<rparr>) s sess = fillCache w s sess"
  by (simp add: fillCache_def Let_def split: option.splits sum.splits)

lemma probeDriver_knobs:
  "probeDriver (w\<lparr>settings := (settings w)\<lparr>webdriver := knobs\<rparr>\<rparr>) s d = probeDriver w s d"
  by (simp add: probeDriver_def fillCache_knobs Let_def split: sum.splits)

lemma shouldReuseDriver_knobs:
  "shouldReuseDriver (w\<lparr>settings := (settings w)\<lparr>webdriver := knobs\<rparr>\<rparr>) s r
     = shouldReuseDriver w s r"
  by (simp add: shouldReuseDriver_def probeDriver_knobs
      cong: option.case_cong sum.case_cong if_cong)

lemma probeTimeout_mobile_longer:
  "isMobile h d1 \<Longrightarrow> \<not> isMobile h d2 \<Longrightarrow> probeTimeout h d2 < probeTimeout h d1"
  by (simp add: probeTimeout_def)

lemma closeDriver_frame:
  "driver (snd (closeDriver w s)) = driver s"
  "cachedSessionInfo (snd (closeDriver w s)) = cachedSessionInfo s"
  "driverService (snd (closeDriver w s)) = driverService s"
  by (simp_all add: closeDriver_def Let_def split: option.splits)

lemma sessionFinished_slots:
  "cachedSessionInfo (snd (sessionFinished w s)) = None"
  "driver (snd (sessionFinished w s)) = driver s"
  "driverService (snd (sessionFinished w s)) = driverService s"
  by (simp_all add: sessionFinished_def closeDriver_frame)

lemma sessionFinished_inv: "cacheInv (snd (sessionFinished w s))"
  by (simp add: cacheInv_def sessionFinished_slots)

lemma createDriverService_frame:
  "driver (snd (createDriverService w s r)) = driver s"
  "cachedSessionInfo (snd (createDriverService w s r)) = cachedSessionInfo s"
  by (simp_all add: createDriverService_def Let_def split: option.splits)

lemma getDriver_inv:
  assumes "cacheInv s"
  shows "cacheInv (snd (getDriver w s options r))"
    and "\<And>d. fst (getDriver w s options r) = Inr d \<Longrightarrow>
           d \<noteq> None \<and> driver (snd (getDriver w s options r)) = d"
proof -
  obtain res s1 where sr: "shouldReuseDriver w s r = (res, s1)"
    by (cases "shouldReuseDriver w s r")
  have inv1: "cacheInv s1"
    using shouldReuseDriver_inv [OF assms, of w r] sr by simp
  have tr: "res = Inr True \<Longrightarrow> driver s1 \<noteq> None"
    using shouldReuseDriver_true [of w s r] sr by simp
  show "cacheInv (snd (getDriver w s options r))"
    using sr inv1
    by (auto simp add: getDriver_def createDriver_def cacheInv_def split: sum.splits)
  show "\<And>d. fst (getDriver w s options r) = Inr d \<Longrightarrow>
           d \<noteq> None \<and> driver (snd (getDriver w s options r)) = d"
    using sr tr
    by (auto simp add: getDriver_def createDriver_def split: sum.splits if_splits)
qed

lemma connectSession_inv:
  assumes "cacheInv s"
  shows "cacheInv (snd (connectSession w s options r host port))"
proof -
  obtain res s1 where sr: "shouldReuseDriver w s r = (res, s1)"
    by (cases "shouldReuseDriver w s r")
  have inv1: "cacheInv s1"
    using shouldReuseDriver_inv [OF assms, of w r] sr by simp
  show ?thesis
  proof (cases res)
    case (Inl e)
    then show ?thesis
      using sr inv1 by (simp add: connectSession_def)
  next
    case (Inr wasReused)
    define step where "step = (if wasReused then (Inr (driver s1), s1)
                               else getDriver w s1 options r)"
    obtain res2 s2 where st: "step = (res2, s2)"
      by (cases step)
    have inv2: "cacheInv s2"
      using st inv1 getDriver_inv(1) [OF inv1, of w options r]
      by (auto simp add: step_def split: if_splits)
    have some: "\<And>d. res2 = Inr d \<Longrightarrow> driver s2 \<noteq> None"
    proof -
      fix d assume r2: "res2 = Inr d"
      show "driver s2 \<noteq> None"
      proof (cases wasReused)
        case True
        then have "driver s1 \<noteq> None"
          using shouldReuseDriver_true [of w s r] sr Inr by simp
        then show ?thesis
          using st True by (simp add: step_def)
      next
        case False
        then show ?thesis
          using st r2 getDriver_inv(2) [OF inv1, of w options r d]
          by (simp add: step_def)
      qed
    qed
    have cs: "connectSession w s options r host port =
        (case step of
           (Inl e, s2) \<Rightarrow> (Inl e, s2)
         | (Inr d, s2) \<Rightarrow>
             (let s3 = s2\<lparr>this_driver := d, trace := trace s2 @ [Exported d]\<rparr>
              in case exported w d of
                   Inl e \<Rightarrow> (Inl e, s3)
                 | Inr sessionExports \<Rightarrow>
                     (let s4 =
                            (if truthy (sessionId sessionExports)
                                \<and> capsTruthy (capabilities sessionExports)
                             then s3\<lparr>cachedSessionInfo :=
                                       Some \<lparr>sessionId = sessionId sessionExports,
                                             capabilities = capabilities sessionExports\<rparr>\<rparr>
                             else s3);
                          s5 = s4\<lparr>this_elementKey := elementKey sessionExports\<rparr>
                      in case showConnectInfo w (sessionInfo sessionExports) of
                           Some e \<Rightarrow> (Inl e, s5)
                         | None \<Rightarrow>
                             (Inr \<lparr>sessionId = sessionId sessionExports,
                                   capabilities = capabilities sessionExports,
                                   result_host = host, result_port = port\<rparr>, s5))))"
      using sr Inr by (simp add: connectSession_def step_def)
    show ?thesis
      unfolding cs st
      using inv2 some
      by (cases res2) (auto simp add: cacheInv_def Let_def split: sum.splits option.splits)
  qed
qed

lemma createSession_inv:
  assumes "cacheInv s"
  shows "cacheInv (snd (createSession w s r))"
proof -
  have a: "cacheInv (snd (createDriverService w s r))"
    using assms by (simp add: cacheInv_def createDriverService_frame)
  show ?thesis
  proof (cases "createSessionOptions w")
    case (Inl e)
    then show ?thesis
      using assms by (simp add: createSession_def)
  next
    case (Inr options)
    define pre where "pre = (if truthy (getProp (webdriver (settings w)) ''start_process'')
                             then createDriverService w s r else (Inr (), s))"
    obtain res1 s1 where p: "pre = (res1, s1)"
      by (cases pre)
    have inv1: "cacheInv s1"
      using p a assms by (auto simp add: pre_def split: if_splits)
    have "snd (createSession w s r) = s1
          \<or> snd (createSession w s r)
              = snd (connectSession w s1 options r
                      (getProp (webdriver (settings w)) ''host'')
                      (getProp (webdriver (settings w)) ''port''))"
      using Inr p
      by (auto simp add: createSession_def Let_def pre_def split: sum.splits prod.splits)
    then show ?thesis
      using inv1 connectSession_inv [OF inv1] by auto
  qed
qed

section \<open>The reused connect\<close>

lemma createDriverService_ready:
  assumes "serviceReady w s"
  shows "\<exists>s1. (if truthy (getProp (webdriver (settings w)) ''start_process'')
               then createDriverService w s True else (Inr (), s)) = (Inr (), s1)
              \<and> driver s1 = driver s \<and> cachedSessionInfo s1 = cachedSessionInfo s
              \<and> trace s1 = trace s @ serviceEvents w s"
  using assms
  by (auto simp add: serviceReady_def serviceEvents_def createDriverService_def Let_def)

lemma shouldReuseDriver_healthy:
  assumes "driver s = Some d" and "cachedSessionInfo s = Some info"
    and "capsTruthy (capabilities info)"
    and "capabilitiesMatch (mobile w) (desiredCapabilities (settings w)) (capabilities info)
           = Inr True"
    and "getSession w d = Resolves t sess"
    and "t < probeTimeout (mobile w) (desiredCapabilities (settings w))"
  shows "shouldReuseDriver w s True = (Inr True, s\<lparr>trace := trace s @ [GetSession d]\<rparr>)"
proof -
  have "passesGate w s"
    using assms(2,4) by (simp add: passesGate_def)
  then have "shouldReuseDriver w s True = probeDriver w s d"
    using assms(1) by (rule shouldReuseDriver_probe [rotated])
  then show ?thesis
    using probeDriver_succeeds [OF assms(5,6), of s] assms(2)
    by (simp add: fillCache_cached)
qed

lemma connectSession_reuse:
  assumes "driver s = Some d" and "cachedSessionInfo s = Some info"
    and "capsTruthy (capabilities info)"
    and "capabilitiesMatch (mobile w) (desiredCapabilities (settings w)) (capabilities info)
           = Inr True"
    and "getSession w d = Resolves t sess"
    and "t < probeTimeout (mobile w) (desiredCapabilities (settings w))"
    and "exported w (Some d) = Inr ex"
    and "showConnectInfo w (sessionInfo ex) = None"
  shows "\<exists>s2. connectSession w s options True host port
                = (Inr \<lparr>sessionId = sessionId ex, capabilities = capabilities ex,
                        result_host = host, result_port = port\<rparr>, s2)
              \<and> trace s2 = trace s @ [GetSession d, Exported (Some d)]
              \<and> driver s2 = Some d \<and> this_driver s2 = Some d
              \<and> cachedSessionInfo s2 \<noteq> None"
  using shouldReuseDriver_healthy [OF assms(1-6)] assms(1,2,7,8)
  by (simp add: connectSession_def Let_def)

lemma createSession_reuse:
  assumes "createSessionOptions w = Inr options"
    and "serviceReady w s"
    and "driver s = Some d" and "cachedSessionInfo s = Some info"
    and "capsTruthy (capabilities info)"
    and "capabilitiesMatch (mobile w) (desiredCapabilities (settings w)) (capabilities info)
           = Inr True"
    and "getSession w d = Resolves t sess"
    and "t < probeTimeout (mobile w) (desiredCapabilities (settings w))"
    and "exported w (Some d) = Inr ex"
    and "showConnectInfo w (sessionInfo ex) = None"
  shows "fst (createSession w s True)
           = Inr \<lparr>sessionId = sessionId ex, capabilities = capabilities ex,
                  result_host = getProp (webdriver (settings w)) ''host'',
                  result_port = getProp (webdriver (settings w)) ''port''\<rparr>"
    and "trace (snd (createSession w s True))
           = trace s @ serviceEvents w s @ [GetSession d, Exported (Some d)]"
    and "driver (snd (createSession w s True)) = Some d"
    and "this_driver (snd (createSession w s True)) = Some d"
proof -
  obtain s1 where s1:
    "(if truthy (getProp (webdriver (settings w)) ''start_process'')
      then createDriverService w s True else (Inr (), s)) = (Inr (), s1)"
    "driver s1 = driver s" "cachedSessionInfo s1 = cachedSessionInfo s"
    "trace s1 = trace s @ serviceEvents w s"
    using createDriverService_ready [OF assms(2)] by blast
  have d1: "driver s1 = Some d" and i1: "cachedSessionInfo s1 = Some info"
    using s1 assms(3,4) by simp_all
  obtain s2 where s2:
    "connectSession w s1 options True (getProp (webdriver (settings w)) ''host'')
         (getProp (webdriver (settings w)) ''port'')
       = (Inr \<lparr>sessionId = sessionId ex, capabilities = capabilities ex,
               result_host = getProp (webdriver (settings w)) ''host'',
               result_port = getProp (webdriver (settings w)) ''port''\<rparr>, s2)"
    "trace s2 = trace s1 @ [GetSession d, Exported (Some d)]"
    "driver s2 = Some d" "this_driver s2 = Some d"
    using connectSession_reuse [OF d1 i1 assms(5-10)] by blast
  have cs: "createSession w s True
       = (Inr \<lparr>sessionId = sessionId ex, capabilities = capabilities ex,
               result_host = getProp (webdriver (settings w)) ''host'',
               result_port = getProp (webdriver (settings w)) ''port''\<rparr>, s2)"
    using assms(1) s1(1) s2(1) by (simp add: createSession_def Let_def)
  show "fst (createSession w s True)
           = Inr \<lparr>sessionId = sessionId ex, capabilities = capabilities ex,
                  result_host = getProp (webdriver (settings w)) ''host'',
                  result_port = getProp (webdriver (settings w)) ''port''\<rparr>"
    using cs by simp
  show "trace (snd (createSession w s True))
           = trace s @ serviceEvents w s @ [GetSession d, Exported (Some d)]"
    using cs s2(2) s1(4) by simp
  show "driver (snd (createSession w s True)) = Some d"
    using cs s2(3) by simp
  show "this_driver (snd (createSession w s True)) = Some d"
    using cs s2(4) by simp
qed

lemma serviceEvents_no_create: "CreateDriver \<notin> set (serviceEvents w s)"
  by (simp add: serviceEvents_def)

section \<open>The claims on the session cache\<close>

lemmas world_eval =
  chromeWorld_def slowWorld_def deadWorld_def androidWorld_def emptyCache_def warmCache_def
  staleCache_def androidCache_def servedCache_def

lemmas reuse_eval =
  shouldReuseDriver_def probeDriver_def fillCache_def raceTimeout_def probeTimeout_def
  passesGate_def probeFails_def

lemma match_linux: "capabilitiesMatch mobileUtils linuxChrome linuxSession = Inr True"
  by (simp add: caps_eval linuxChrome_def linuxSession_def)

lemma match_firefox:
  "capabilitiesMatch mobileUtils linuxChrome (PlainCaps (JObj [(''browserName'', JStr ''firefox'')]))
     = Inr False"
  by (simp add: caps_eval linuxChrome_def)

lemma match_android: "capabilitiesMatch mobileUtils androidCaps sameDevice = Inr True"
  by (simp add: caps_eval androidCaps_def sameDevice_def)

lemma mobile_android: "isMobile mobileUtils androidCaps"
  by (simp add: caps_eval androidCaps_def)

lemma mobile_linux: "\<not> isMobile mobileUtils linuxChrome"
  by (simp add: caps_eval linuxChrome_def)

text \<open>
  C10. Whatever its argument, the world and the cache state, shouldReuseDriver leaves the
  driver-service slot as it was, and the driver-handle slot afterwards holds what it held
  before or nothing: no new or other driver handle is ever installed.
\<close>

theorem shouldReuseDriver_frame:
  "driverService (snd (shouldReuseDriver w s r)) = driverService s
   \<and> (driver (snd (shouldReuseDriver w s r)) = driver s
       \<or> driver (snd (shouldReuseDriver w s r)) = None)"
  using shouldReuseDriver_frame_aux [of w s r] by simp

theorem shouldReuseDriver_frame_witness:
  "driverService (snd (shouldReuseDriver deadWorld servedCache True)) = Some (Service 1)
   \<and> driver servedCache = Some (Driver 1)
   \<and> driver (snd (shouldReuseDriver deadWorld servedCache True)) = None
   \<and> driver (snd (shouldReuseDriver chromeWorld servedCache True)) = Some (Driver 1)"
proof -
  have a: "driverService servedCache = Some (Service 1) \<and> driver servedCache = Some (Driver 1)"
    by (simp add: world_eval)
  have b: "driver (snd (shouldReuseDriver deadWorld servedCache True)) \<noteq> driver servedCache"
    by (simp add: reuse_eval world_eval match_linux mobile_linux)
  have c: "driver (snd (shouldReuseDriver chromeWorld servedCache True)) \<noteq> None"
    by (simp add: reuse_eval world_eval match_linux mobile_linux)
  show ?thesis
    using a b c shouldReuseDriver_frame [of deadWorld servedCache True]
      shouldReuseDriver_frame [of chromeWorld servedCache True]
    by auto
qed

text \<open>
  C4. In every cache state of the data model (a snapshot is cached only with a driver) in
  which a snapshot with capabilities is cached and the matcher finds that they do not match
  the desired capabilities, shouldReuseDriver(true) returns false, empties both the
  driver-handle slot and the snapshot slot, and makes no outside call at all: the cached
  driver's getSession is not invoked.
\<close>

theorem shouldReuseDriver_mismatch_skips_probe:
  assumes "cacheInv s"
    and "cachedSessionInfo s = Some info"
    and "capsTruthy (capabilities info)"
    and "capabilitiesMatch (mobile w) (desiredCapabilities (settings w)) (capabilities info)
           = Inr False"
  shows "fst (shouldReuseDriver w s True) = Inr False
         \<and> driver (snd (shouldReuseDriver w s True)) = None
         \<and> cachedSessionInfo (snd (shouldReuseDriver w s True)) = None
         \<and> trace (snd (shouldReuseDriver w s True)) = trace s"
proof -
  obtain d where d: "driver s = Some d"
    using assms(1,2) by (auto simp add: cacheInv_def)
  show ?thesis
    using shouldReuseDriver_mismatch [OF d assms(2-4)] by simp
qed

theorem shouldReuseDriver_mismatch_skips_probe_witness:
  "cacheInv staleCache
   \<and> fst (shouldReuseDriver chromeWorld staleCache True) = Inr False
   \<and> driver (snd (shouldReuseDriver chromeWorld staleCache True)) = None
   \<and> cachedSessionInfo (snd (shouldReuseDriver chromeWorld staleCache True)) = None
   \<and> trace (snd (shouldReuseDriver chromeWorld staleCache True)) = []"
proof -
  have a: "cacheInv staleCache"
    by (simp add: cacheInv_def world_eval)
  have b: "cachedSessionInfo staleCache
             = Some \<lparr>sessionId = JStr ''a1b2'',
                     capabilities = PlainCaps (JObj [(''browserName'', JStr ''firefox'')])\<rparr>"
    by (simp add: world_eval)
  have c: "capsTruthy (capabilities \<lparr>sessionId = JStr ''a1b2'',
                     capabilities = PlainCaps (JObj [(''browserName'', JStr ''firefox'')])\<rparr>)"
    by simp
  have d: "capabilitiesMatch (mobile chromeWorld) (desiredCapabilities (settings chromeWorld))
             (capabilities \<lparr>sessionId = JStr ''a1b2'',
                     capabilities = PlainCaps (JObj [(''browserName'', JStr ''firefox'')])\<rparr>)
           = Inr False"
    by (simp add: chromeWorld_def match_firefox)
  have e: "trace staleCache = []"
    by (simp add: world_eval)
  show ?thesis
    using a e shouldReuseDriver_mismatch_skips_probe [OF a b c d] by simp
qed

text \<open>
  C3, as the code has it. The allowance of the liveness probe is fixed in the code: 2000
  ms when the desired capabilities are classified mobile, 1000 ms otherwise, so the mobile
  allowance is strictly longer. A probe that resolves after t ms is accepted exactly when t
  is below that allowance, whatever the settings hold; and replacing every knob of the
  settings' webdriver section changes nothing in what shouldReuseDriver does.
\<close>

theorem probe_timeout_hardcoded:
  "(isMobile h d1 \<and> \<not> isMobile h d2 \<longrightarrow> probeTimeout h d2 < probeTimeout h d1)
   \<and> (driver s = Some d \<and> passesGate w s \<and> getSession w d = Resolves t sess \<longrightarrow>
        fst (shouldReuseDriver w s True)
          = Inr (t < (if isMobile (mobile w) (desiredCapabilities (settings w))
                      then 2000 else 1000)))
   \<and> shouldReuseDriver (w\<lparr>settings := (settings w)\<lparr>webdriver := knobs\<rparr>\<rparr>) s r
        = shouldReuseDriver w s r"
proof -
  have a: "isMobile h d1 \<and> \<not> isMobile h d2 \<longrightarrow> probeTimeout h d2 < probeTimeout h d1"
    by (simp add: probeTimeout_mobile_longer)
  have b: "driver s = Some d \<and> passesGate w s \<and> getSession w d = Resolves t sess \<longrightarrow>
        fst (shouldReuseDriver w s True)
          = Inr (t < (if isMobile (mobile w) (desiredCapabilities (settings w))
                      then 2000 else 1000))"
  proof (intro impI, elim conjE)
    assume h: "driver s = Some d" "passesGate w s" "getSession w d = Resolves t sess"
    have "shouldReuseDriver w s True = probeDriver w s d"
      using h(1,2) by (rule shouldReuseDriver_probe)
    then show "fst (shouldReuseDriver w s True)
          = Inr (t < (if isMobile (mobile w) (desiredCapabilities (settings w))
                      then 2000 else 1000))"
      using probeDriver_resolves [OF h(3), of s] by (simp add: probeTimeout_def)
  qed
  show ?thesis
    using a b shouldReuseDriver_knobs [where w = w and knobs = knobs and s = s and r = r]
    by (simp only: simp_thms)
qed

theorem probe_timeout_hardcoded_witness:
  "isMobile mobileUtils androidCaps \<and> \<not> isMobile mobileUtils linuxChrome
   \<and> probeTimeout mobileUtils linuxChrome < probeTimeout mobileUtils androidCaps
   \<and> getSession slowWorld (Driver 1)
       = Resolves 1500 \<lparr>getId = Inr (JStr ''a1b2''), getCapabilities = Inr linuxSession\<rparr>
   \<and> fst (shouldReuseDriver slowWorld warmCache True) = Inr False
   \<and> fst (shouldReuseDriver androidWorld androidCache True) = Inr True"
proof -
  have a: "isMobile mobileUtils androidCaps \<and> \<not> isMobile mobileUtils linuxChrome"
    by (simp add: mobile_android mobile_linux)
  have b: "driver warmCache = Some (Driver 1) \<and> passesGate slowWorld warmCache
      \<and> getSession slowWorld (Driver 1)
          = Resolves 1500 \<lparr>getId = Inr (JStr ''a1b2''), getCapabilities = Inr linuxSession\<rparr>"
    by (simp add: reuse_eval world_eval match_linux)
  have c: "driver androidCache = Some (Driver 1) \<and> passesGate androidWorld androidCache
      \<and> getSession androidWorld (Driver 1)
          = Resolves 1500 \<lparr>getId = Inr (JStr ''a1b2''), getCapabilities = Inr linuxSession\<rparr>"
    by (simp add: reuse_eval world_eval match_android)
  have d: "\<not> isMobile (mobile slowWorld) (desiredCapabilities (settings slowWorld))"
    by (simp add: world_eval mobile_linux)
  have e: "isMobile (mobile androidWorld) (desiredCapabilities (settings androidWorld))"
    by (simp add: world_eval mobile_android)
  have ra: "probeTimeout mobileUtils linuxChrome < probeTimeout mobileUtils androidCaps"
    using a probe_timeout_hardcoded
      [where h = mobileUtils and ?d1.0 = androidCaps and ?d2.0 = linuxChrome]
    by (simp only: simp_thms)
  have rb: "fst (shouldReuseDriver slowWorld warmCache True) = Inr False"
    using b d probe_timeout_hardcoded
      [where w = slowWorld and s = warmCache and d = "Driver 1" and t = 1500
         and sess = "\<lparr>getId = Inr (JStr ''a1b2''), getCapabilities = Inr linuxSession\<rparr>"]
    by simp
  have rc: "fst (shouldReuseDriver androidWorld androidCache True) = Inr True"
    using c e probe_timeout_hardcoded
      [where w = androidWorld and s = androidCache and d = "Driver 1" and t = 1500
         and sess = "\<lparr>getId = Inr (JStr ''a1b2''), getCapabilities = Inr linuxSession\<rparr>"]
    by simp
  show ?thesis
    using a b ra rb rc by (simp only: simp_thms)
qed

text \<open>
  C3 as it was stated fails on its first part: with a timeout knob of 60000 ms in the
  settings, a desktop probe answered after 1500 ms is still taken as timed out and the
  cache is emptied.
\<close>

theorem probe_timeout_hardcoded_counterexample:
  "getProp (ownProps (getProp (webdriver (settings slowWorld)) ''timeout_options'')) ''timeout''
     = JNum 60000
   \<and> getSession slowWorld (Driver 1)
       = Resolves 1500 \<lparr>getId = Inr (JStr ''a1b2''), getCapabilities = Inr linuxSession\<rparr>
   \<and> shouldReuseDriver slowWorld warmCache True
       = (Inr False,
          warmCache\<lparr>trace := [GetSession (Driver 1)], driver := None,
                     cachedSessionInfo := None\<rparr>)"
  by (simp add: reuse_eval world_eval match_linux mobile_linux getProp_def)

text \<open>
  C1, as the code has it. The cache starts empty, and createSession, shouldReuseDriver and
  sessionFinished each keep the invariant that a snapshot is cached only while a driver
  handle is. sessionFinished empties the snapshot slot and leaves the driver-handle slot
  as it was. shouldReuseDriver empties both slots together on a capability mismatch and on
  a failed or timed-out probe, and whenever it answers false for a requested reuse of a
  cached driver.
\<close>

theorem cache_invariant:
  "cacheInv emptyCache
   \<and> (cacheInv s \<longrightarrow>
        cacheInv (snd (createSession w s r))
        \<and> cacheInv (snd (shouldReuseDriver w s r))
        \<and> cacheInv (snd (sessionFinished w s)))
   \<and> cachedSessionInfo (snd (sessionFinished w s)) = None
   \<and> driver (snd (sessionFinished w s)) = driver s
   \<and> (driver s = Some d \<and> cachedSessionInfo s = Some info \<and> capsTruthy (capabilities info)
        \<and> capabilitiesMatch (mobile w) (desiredCapabilities (settings w)) (capabilities info)
            = Inr False
      \<longrightarrow> driver (snd (shouldReuseDriver w s True)) = None
          \<and> cachedSessionInfo (snd (shouldReuseDriver w s True)) = None)
   \<and> (driver s = Some d \<and> passesGate w s \<and> probeFails w d
      \<longrightarrow> fst (shouldReuseDriver w s True) = Inr False
          \<and> driver (snd (shouldReuseDriver w s True)) = None
          \<and> cachedSessionInfo (snd (shouldReuseDriver w s True)) = None)
   \<and> (driver s \<noteq> None \<and> fst (shouldReuseDriver w s True) = Inr False
      \<longrightarrow> driver (snd (shouldReuseDriver w s True)) = None
          \<and> cachedSessionInfo (snd (shouldReuseDriver w s True)) = None)"
proof -
  have a: "cacheInv emptyCache"
    by (simp add: cacheInv_def emptyCache_def)
  have b: "cacheInv s \<longrightarrow>
        cacheInv (snd (createSession w s r))
        \<and> cacheInv (snd (shouldReuseDriver w s r))
        \<and> cacheInv (snd (sessionFinished w s))"
    by (simp add: createSession_inv shouldReuseDriver_inv sessionFinished_inv)
  have c: "cachedSessionInfo (snd (sessionFinished w s)) = None
      \<and> driver (snd (sessionFinished w s)) = driver s"
    by (simp add: sessionFinished_slots)
  have d: "driver s = Some d \<and> cachedSessionInfo s = Some info \<and> capsTruthy (capabilities info)
        \<and> capabilitiesMatch (mobile w) (desiredCapabilities (settings w)) (capabilities info)
            = Inr False
      \<longrightarrow> driver (snd (shouldReuseDriver w s True)) = None
          \<and> cachedSessionInfo (snd (shouldReuseDriver w s True)) = None"
    by (simp add: shouldReuseDriver_mismatch)
  have e: "driver s = Some d \<and> passesGate w s \<and> probeFails w d
      \<longrightarrow> fst (shouldReuseDriver w s True) = Inr False
          \<and> driver (snd (shouldReuseDriver w s True)) = None
          \<and> cachedSessionInfo (snd (shouldReuseDriver w s True)) = None"
    by (simp add: shouldReuseDriver_probe probeDriver_fails)
  have f: "driver s \<noteq> None \<and> fst (shouldReuseDriver w s True) = Inr False
      \<longrightarrow> driver (snd (shouldReuseDriver w s True)) = None
          \<and> cachedSessionInfo (snd (shouldReuseDriver w s True)) = None"
    using shouldReuseDriver_false [of s w] by blast
  show ?thesis
    using a b c d e f by (simp only: simp_thms)
qed

theorem cache_invariant_witness:
  "cacheInv warmCache
   \<and> cacheInv (snd (createSession chromeWorld warmCache True))
   \<and> cacheInv (snd (shouldReuseDriver deadWorld warmCache True))
   \<and> cacheInv (snd (sessionFinished chromeWorld warmCache))
   \<and> driver staleCache = Some (Driver 1)
   \<and> driver (snd (shouldReuseDriver chromeWorld staleCache True)) = None
   \<and> cachedSessionInfo (snd (shouldReuseDriver chromeWorld staleCache True)) = None
   \<and> probeFails deadWorld (Driver 1)
   \<and> fst (shouldReuseDriver deadWorld warmCache True) = Inr False
   \<and> driver (snd (shouldReuseDriver deadWorld warmCache True)) = None
   \<and> cachedSessionInfo (snd (shouldReuseDriver deadWorld warmCache True)) = None"
proof -
  have a: "cacheInv warmCache"
    by (simp add: cacheInv_def world_eval)
  have b: "driver staleCache = Some (Driver 1)
      \<and> cachedSessionInfo staleCache
          = Some \<lparr>sessionId = JStr ''a1b2'',
                  capabilities = PlainCaps (JObj [(''browserName'', JStr ''firefox'')])\<rparr>
      \<and> capsTruthy (capabilities \<lparr>sessionId = JStr ''a1b2'',
                  capabilities = PlainCaps (JObj [(''browserName'', JStr ''firefox'')])\<rparr>)
      \<and> capabilitiesMatch (mobile chromeWorld) (desiredCapabilities (settings chromeWorld))
          (capabilities \<lparr>sessionId = JStr ''a1b2'',
                  capabilities = PlainCaps (JObj [(''browserName'', JStr ''firefox'')])\<rparr>)
          = Inr False"
    by (simp add: world_eval match_firefox)
  have c: "driver warmCache = Some (Driver 1) \<and> passesGate deadWorld warmCache
      \<and> probeFails deadWorld (Driver 1)"
    by (simp add: reuse_eval world_eval match_linux)
  have ra: "cacheInv (snd (createSession chromeWorld warmCache True))
      \<and> cacheInv (snd (sessionFinished chromeWorld warmCache))"
    using a cache_invariant [where s = warmCache and w = chromeWorld and r = True]
    by (simp only: simp_thms)
  have rb: "cacheInv (snd (shouldReuseDriver deadWorld warmCache True))"
    using a cache_invariant [where s = warmCache and w = deadWorld and r = True]
    by (simp only: simp_thms)
  have rc: "driver (snd (shouldReuseDriver chromeWorld staleCache True)) = None
      \<and> cachedSessionInfo (snd (shouldReuseDriver chromeWorld staleCache True)) = None"
    using b cache_invariant
      [where s = staleCache and w = chromeWorld and d = "Driver 1"
         and info = "\<lparr>sessionId = JStr ''a1b2'',
                  capabilities = PlainCaps (JObj [(''browserName'', JStr ''firefox'')])\<rparr>"]
    by (simp only: simp_thms)
  have rd: "fst (shouldReuseDriver deadWorld warmCache True) = Inr False
      \<and> driver (snd (shouldReuseDriver deadWorld warmCache True)) = None
      \<and> cachedSessionInfo (snd (shouldReuseDriver deadWorld warmCache True)) = None"
    using c cache_invariant [where s = warmCache and w = deadWorld and d = "Driver 1"]
    by (simp only: simp_thms)
  show ?thesis
    using a b c ra rb rc rd by (simp only: simp_thms)
qed

text \<open>
  C1 as it was stated fails on session-finish: the driver-handle slot is not emptied, only
  the snapshot slot is.
\<close>

theorem cache_invariant_counterexample:
  "driver warmCache = Some (Driver 1)
   \<and> sessionFinished chromeWorld warmCache
       = (Inr (), warmCache\<lparr>cachedSessionInfo := None\<rparr>)
   \<and> driver (snd (sessionFinished chromeWorld warmCache)) = Some (Driver 1)"
  by (simp add: sessionFinished_def closeDriver_def world_eval)

lemma createDriverService_trace:
  "\<exists>evs. trace (snd (createDriverService w s r)) = trace s @ evs \<and> CreateDriver \<notin> set evs"
  by (auto simp add: createDriverService_def Let_def split: option.splits)

lemma connectSession_reuse_state:
  assumes "driver s = Some d" and "cachedSessionInfo s = Some info"
    and "capsTruthy (capabilities info)"
    and "capabilitiesMatch (mobile w) (desiredCapabilities (settings w)) (capabilities info)
           = Inr True"
    and "getSession w d = Resolves t sess"
    and "t < probeTimeout (mobile w) (desiredCapabilities (settings w))"
  shows "trace (snd (connectSession w s options True host port))
           = trace s @ [GetSession d, Exported (Some d)]"
    and "driver (snd (connectSession w s options True host port)) = Some d"
    and "exported w (Some d) = Inl e \<Longrightarrow>
           fst (connectSession w s options True host port) = Inl e"
  using shouldReuseDriver_healthy [OF assms] assms(1)
  by (simp_all add: connectSession_def Let_def split: sum.splits option.splits)

lemma createSession_reuse_trace:
  assumes "driver s = Some d" and "cachedSessionInfo s = Some info"
    and "capsTruthy (capabilities info)"
    and "capabilitiesMatch (mobile w) (desiredCapabilities (settings w)) (capabilities info)
           = Inr True"
    and "getSession w d = Resolves t sess"
    and "t < probeTimeout (mobile w) (desiredCapabilities (settings w))"
  shows "\<exists>evs. trace (snd (createSession w s True)) = trace s @ evs \<and> CreateDriver \<notin> set evs"
    and "driver (snd (createSession w s True)) = Some d"
proof -
  define pre where "pre = (if truthy (getProp (webdriver (settings w)) ''start_process'')
                           then createDriverService w s True else (Inr (), s))"
  obtain res1 s1 where p: "pre = (res1, s1)"
    by (cases pre)
  have d1: "driver s1 = Some d" and i1: "cachedSessionInfo s1 = Some info"
    using p assms(1,2) createDriverService_frame [of w s True]
    by (auto simp add: pre_def split: if_splits)
  obtain evs1 where e1: "trace s1 = trace s @ evs1" "CreateDriver \<notin> set evs1"
    using p createDriverService_trace [of w s True]
    by (auto simp add: pre_def split: if_splits)
  have both: "(\<exists>evs. trace (snd (createSession w s True)) = trace s @ evs
                  \<and> CreateDriver \<notin> set evs)
              \<and> driver (snd (createSession w s True)) = Some d"
  proof (cases "createSessionOptions w")
    case (Inl e)
    then show ?thesis
      using assms(1) by (simp add: createSession_def)
  next
    case (Inr options)
    show ?thesis
    proof (cases res1)
      case (Inl e)
      then have "snd (createSession w s True) = s1"
        using Inr p by (simp add: createSession_def Let_def pre_def)
      then show ?thesis
        using d1 e1 by auto
    next
      case r: (Inr u)
      have "snd (createSession w s True)
              = snd (connectSession w s1 options True
                      (getProp (webdriver (settings w)) ''host'')
                      (getProp (webdriver (settings w)) ''port''))"
        using Inr p r
        by (simp add: createSession_def Let_def pre_def split: sum.splits prod.splits)
      then show ?thesis
        using connectSession_reuse_state(1,2) [OF d1 i1 assms(3-6)] e1 by auto
    qed
  qed
  show "\<exists>evs. trace (snd (createSession w s True)) = trace s @ evs \<and> CreateDriver \<notin> set evs"
    using both by blast
  show "driver (snd (createSession w s True)) = Some d"
    using both by blast
qed

lemma createSession_reuse_export_fails:
  assumes "createSessionOptions w = Inr options"
    and "serviceReady w s"
    and "driver s = Some d" and "cachedSessionInfo s = Some info"
    and "capsTruthy (capabilities info)"
    and "capabilitiesMatch (mobile w) (desiredCapabilities (settings w)) (capabilities info)
           = Inr True"
    and "getSession w d = Resolves t sess"
    and "t < probeTimeout (mobile w) (desiredCapabilities (settings w))"
    and "exported w (Some d) = Inl e"
  shows "fst (createSession w s True)
           = Inl (handleConnectError w (snd (createSession w s True)) e
                    (getProp (webdriver (settings w)) ''host'')
                    (getProp (webdriver (settings w)) ''port''))"
proof -
  obtain s1 where s1:
    "(if truthy (getProp (webdriver (settings w)) ''start_process'')
      then createDriverService w s True else (Inr (), s)) = (Inr (), s1)"
    "driver s1 = driver s" "cachedSessionInfo s1 = cachedSessionInfo s"
    using createDriverService_ready [OF assms(2)] by blast
  have d1: "driver s1 = Some d" and i1: "cachedSessionInfo s1 = Some info"
    using s1 assms(3,4) by simp_all
  obtain r2 s2 where c: "connectSession w s1 options True
        (getProp (webdriver (settings w)) ''host'')
        (getProp (webdriver (settings w)) ''port'') = (r2, s2)"
    by (cases "connectSession w s1 options True
        (getProp (webdriver (settings w)) ''host'')
        (getProp (webdriver (settings w)) ''port'')")
  have "r2 = Inl e"
    using connectSession_reuse_state(3)
      [where options = options and host = "getProp (webdriver (settings w)) ''host''"
         and port = "getProp (webdriver (settings w)) ''port''",
       OF d1 i1 assms(5-8) assms(9)] c
    by simp
  then show ?thesis
    using assms(1) s1(1) c by (simp add: createSession_def Let_def)
qed

text \<open>
  C5, as the code has it. When reuse is requested, a driver is cached whose probe resolves
  within the allowance, and the cached capabilities match the desired ones, createSession
  never makes the remote-session creation call, however it ends, and the cached driver
  stays in its slot. It completes, returning the exported session id and capabilities with
  host and port, when the session options are built, the driver service does not fail, the
  export succeeds and the connect info can be printed; the outside calls are then the
  start of a driver service where one is due, the probe and the export. When the export
  rejects, createSession does not complete: it throws the export's error as
  handleConnectError classifies it.
\<close>

theorem createSession_reuses_driver:
  assumes "driver s = Some d" and "cachedSessionInfo s = Some info"
    and "capsTruthy (capabilities info)"
    and "capabilitiesMatch (mobile w) (desiredCapabilities (settings w)) (capabilities info)
           = Inr True"
    and "getSession w d = Resolves t sess"
    and "t < probeTimeout (mobile w) (desiredCapabilities (settings w))"
  shows "(\<exists>evs. trace (snd (createSession w s True)) = trace s @ evs
                \<and> CreateDriver \<notin> set evs)
         \<and> driver (snd (createSession w s True)) = Some d
         \<and> (createSessionOptions w = Inr options \<and> serviceReady w s
              \<and> exported w (Some d) = Inr ex \<and> showConnectInfo w (sessionInfo ex) = None
            \<longrightarrow> fst (createSession w s True)
                  = Inr \<lparr>sessionId = sessionId ex, capabilities = capabilities ex,
                         result_host = getProp (webdriver (settings w)) ''host'',
                         result_port = getProp (webdriver (settings w)) ''port''\<rparr>
                \<and> trace (snd (createSession w s True))
                    = trace s @ serviceEvents w s @ [GetSession d, Exported (Some d)])
         \<and> (createSessionOptions w = Inr options \<and> serviceReady w s
              \<and> exported w (Some d) = Inl e
            \<longrightarrow> fst (createSession w s True)
                  = Inl (handleConnectError w (snd (createSession w s True)) e
                           (getProp (webdriver (settings w)) ''host'')
                           (getProp (webdriver (settings w)) ''port'')))"
proof -
  have a: "\<exists>evs. trace (snd (createSession w s True)) = trace s @ evs
                \<and> CreateDriver \<notin> set evs"
    using assms by (rule createSession_reuse_trace(1))
  have b: "driver (snd (createSession w s True)) = Some d"
    using assms by (rule createSession_reuse_trace(2))
  have c: "createSessionOptions w = Inr options \<and> serviceReady w s
              \<and> exported w (Some d) = Inr ex \<and> showConnectInfo w (sessionInfo ex) = None
            \<longrightarrow> fst (createSession w s True)
                  = Inr \<lparr>sessionId = sessionId ex, capabilities = capabilities ex,
                         result_host = getProp (webdriver (settings w)) ''host'',
                         result_port = getProp (webdriver (settings w)) ''port''\<rparr>
                \<and> trace (snd (createSession w s True))
                    = trace s @ serviceEvents w s @ [GetSession d, Exported (Some d)]"
    using createSession_reuse(1,2) [of w options s d info t sess ex] assms by blast
  have d: "createSessionOptions w = Inr options \<and> serviceReady w s
              \<and> exported w (Some d) = Inl e
            \<longrightarrow> fst (createSession w s True)
                  = Inl (handleConnectError w (snd (createSession w s True)) e
                           (getProp (webdriver (settings w)) ''host'')
                           (getProp (webdriver (settings w)) ''port''))"
    using createSession_reuse_export_fails [of w options s d info t sess e] assms by blast
  show ?thesis
    using a b c d by (simp only: simp_thms)
qed

theorem createSession_reuses_driver_witness:
  "fst (createSession chromeWorld warmCache True)
     = Inr \<lparr>sessionId = JStr ''a1b2'', capabilities = linuxSession,
            result_host = JStr ''localhost'', result_port = JNum 9515\<rparr>
   \<and> trace (snd (createSession chromeWorld warmCache True))
       = [GetSession (Driver 1), Exported (Some (Driver 1))]
   \<and> driver (snd (createSession chromeWorld warmCache True)) = Some (Driver 1)
   \<and> driver (snd (createSession exportFailsWorld warmCache True)) = Some (Driver 1)
   \<and> isl (fst (createSession exportFailsWorld warmCache True))"
proof -
  let ?ex = "\<lparr>sessionId = JStr ''a1b2'', capabilities = linuxSession,
              sessionInfo = JObj [(''platform'', JStr ''linux''), (''appId'', JStr [])],
              elementKey = JStr ''element-6066-11e4-a52e-4f735466cecf''\<rparr>"
  let ?info = "\<lparr>sessionId = JStr ''a1b2'', capabilities = linuxSession\<rparr>"
  let ?sess = "\<lparr>getId = Inr (JStr ''a1b2''), getCapabilities = Inr linuxSession\<rparr>"
  let ?e = "newError NoSuchSessionError ''invalid session id''"
  have c: "driver warmCache = Some (Driver 1)"
    by (simp add: world_eval)
  have d: "cachedSessionInfo warmCache = Some ?info"
    by (simp add: world_eval)
  have e: "capsTruthy (capabilities ?info)"
    by (simp add: linuxSession_def)
  have f: "capabilitiesMatch (mobile chromeWorld) (desiredCapabilities (settings chromeWorld))
             (capabilities ?info) = Inr True"
    by (simp add: chromeWorld_def match_linux)
  have g: "getSession chromeWorld (Driver 1) = Resolves 150 ?sess"
    by (simp add: chromeWorld_def)
  have h: "150 < probeTimeout (mobile chromeWorld) (desiredCapabilities (settings chromeWorld))"
    by (simp add: chromeWorld_def probeTimeout_def mobile_linux)
  have f': "capabilitiesMatch (mobile exportFailsWorld)
             (desiredCapabilities (settings exportFailsWorld)) (capabilities ?info) = Inr True"
    by (simp add: exportFailsWorld_def chromeWorld_def match_linux)
  have g': "getSession exportFailsWorld (Driver 1) = Resolves 150 ?sess"
    by (simp add: exportFailsWorld_def chromeWorld_def)
  have h': "150 < probeTimeout (mobile exportFailsWorld)
                    (desiredCapabilities (settings exportFailsWorld))"
    by (simp add: exportFailsWorld_def chromeWorld_def probeTimeout_def mobile_linux)
  have ok: "createSessionOptions chromeWorld = Inr (JObj linuxChrome)
      \<and> serviceReady chromeWorld warmCache
      \<and> exported chromeWorld (Some (Driver 1)) = Inr ?ex
      \<and> showConnectInfo chromeWorld (sessionInfo ?ex) = None"
    by (simp add: serviceReady_def showConnectInfo_def world_eval getProp_def)
  have bad: "createSessionOptions exportFailsWorld = Inr (JObj linuxChrome)
      \<and> serviceReady exportFailsWorld warmCache
      \<and> exported exportFailsWorld (Some (Driver 1)) = Inl ?e"
    by (simp add: serviceReady_def exportFailsWorld_def world_eval getProp_def)
  have k: "serviceEvents chromeWorld warmCache = [] \<and> trace warmCache = []
      \<and> getProp (webdriver (settings chromeWorld)) ''host'' = JStr ''localhost''
      \<and> getProp (webdriver (settings chromeWorld)) ''port'' = JNum 9515"
    by (simp add: serviceEvents_def world_eval getProp_def)
  have ra: "fst (createSession chromeWorld warmCache True)
       = Inr \<lparr>sessionId = sessionId ?ex, capabilities = capabilities ?ex,
              result_host = getProp (webdriver (settings chromeWorld)) ''host'',
              result_port = getProp (webdriver (settings chromeWorld)) ''port''\<rparr>
     \<and> trace (snd (createSession chromeWorld warmCache True))
         = trace warmCache @ serviceEvents chromeWorld warmCache
             @ [GetSession (Driver 1), Exported (Some (Driver 1))]"
    using ok createSession_reuses_driver
      [OF c d e f g h, where options = "JObj linuxChrome" and ex = ?ex]
    by (simp only: simp_thms)
  have rb: "driver (snd (createSession chromeWorld warmCache True)) = Some (Driver 1)"
    using createSession_reuses_driver [OF c d e f g h] by (simp only: simp_thms)
  have rc: "driver (snd (createSession exportFailsWorld warmCache True)) = Some (Driver 1)"
    using createSession_reuses_driver [OF c d e f' g' h'] by (simp only: simp_thms)
  have rd: "fst (createSession exportFailsWorld warmCache True)
       = Inl (handleConnectError exportFailsWorld
                (snd (createSession exportFailsWorld warmCache True)) ?e
                (getProp (webdriver (settings exportFailsWorld)) ''host'')
                (getProp (webdriver (settings exportFailsWorld)) ''port''))"
    using bad createSession_reuses_driver
      [OF c d e f' g' h', where options = "JObj linuxChrome" and e = ?e]
    by (simp only: simp_thms)
  have re: "isl (fst (createSession exportFailsWorld warmCache True))"
    unfolding rd by simp
  show ?thesis
    using ra rb rc re k by simp
qed

text \<open>
  C5 as it was stated fails on "completes" and on "only the probe and the export". With a
  cached driver that answers the probe and capabilities that match, createSession throws
  when the session export rejects; and when the transport manages the driver service and
  none is running, the service is started before the probe.
\<close>

theorem createSession_reuses_driver_counterexample:
  "driver warmCache = Some (Driver 1)
   \<and> capabilitiesMatch (mobile exportFailsWorld) (desiredCapabilities (settings exportFailsWorld))
        linuxSession = Inr True
   \<and> fst (shouldReuseDriver exportFailsWorld warmCache True) = Inr True
   \<and> isl (fst (createSession exportFailsWorld warmCache True))
   \<and> fst (shouldReuseDriver managedWorld warmCache True) = Inr True
   \<and> trace (snd (createSession managedWorld warmCache True))
       = [ServiceInit (Service 1), GetSession (Driver 1), Exported (Some (Driver 1))]"
  by (simp add: createSession_def connectSession_def createDriverService_def
      shouldReuseDriverService_def showConnectInfo_def reuse_eval world_eval
      exportFailsWorld_def managedWorld_def match_linux mobile_linux getProp_def Let_def)

end
